theory Spec2Isabelle
  imports Main "HOL-Library.Sublist" "HOL-Library.AList" "HOL-Library.Code_Target_Nat"
begin

text \<open>
  A model of the Stripe webhook module of the backend: the route
  \<^verbatim>\<open>POST /api/stripe/webhook\<close>, which relays billing events into contact records of the
  CRM (tags and audit fields), and the resolver of pipeline stage ids.

  The module exists in several variants. The handler, the lookup and the upsert are
  modelled from the variant that merges tags (\<^verbatim>\<open>ghlV1GetContactByEmail\<close>,
  \<^verbatim>\<open>ghlV1UpsertContact\<close>, \<^verbatim>\<open>splitName\<close>, \<^verbatim>\<open>convertKitSubscribe\<close>,
  \<^verbatim>\<open>registerStripeWebhooks\<close>); the upsert helper of the earlier variant, which has no
  lookup, is modelled next to it. \<^verbatim>\<open>resolveV1StageIdByName\<close> comes from the variant that
  creates opportunities.

  Every outbound call goes through a parameter that stands for the network: it takes the
  state of the outside world and returns the reply, or the rejection, and the new state.
  Each function returns the list of the calls it has issued. Console output and request
  headers are left out; payloads are kept as values, not as JSON text.
\<close>

section \<open>JavaScript strings, truthiness and sets\<close>

text \<open>
  A JavaScript string is modelled as a \<^typ>\<open>string\<close>: a list of code units, each below 256.
  In that range the characters that \<^verbatim>\<open>String.prototype.trim\<close> strips and that the
  regular expression class \<^verbatim>\<open>\s\<close> matches are TAB, LF, VT, FF, CR, SPACE and NBSP.
\<close>

definition isWhiteSpace :: "char \<Rightarrow> bool" where
  "isWhiteSpace c \<longleftrightarrow>
     c \<in> set [CHR 0x09, CHR 0x0A, CHR 0x0B, CHR 0x0C, CHR 0x0D, CHR 0x20, CHR 0xA0]"

definition trim :: "string \<Rightarrow> string" where
  \<comment> \<open>\<^verbatim>\<open>s.trim()\<close>\<close>
  "trim s = rev (dropWhile isWhiteSpace (rev (dropWhile isWhiteSpace s)))"

definition js_or :: "string option \<Rightarrow> string \<Rightarrow> string" where
  \<comment> \<open>\<^verbatim>\<open>a || b\<close> for a property \<open>a\<close> that is a string, or \<open>None\<close> when it is
      undefined or null: the empty string is falsy.\<close>
  "js_or a b = (case a of None \<Rightarrow> b | Some s \<Rightarrow> if s = [] then b else s)"

definition truthy :: "string option \<Rightarrow> bool" where
  "truthy a \<longleftrightarrow> (case a of None \<Rightarrow> False | Some s \<Rightarrow> s \<noteq> [])"

text \<open>
  A JavaScript \<^verbatim>\<open>Set\<close> keeps its members in insertion order and ignores the insertion of a
  member it already holds; \<^verbatim>\<open>Array.from(new Set(xs))\<close> lists the members in that order.
\<close>

definition Set_add :: "'a list \<Rightarrow> 'a \<Rightarrow> 'a list" where
  "Set_add s x = (if x \<in> set s then s else s @ [x])"

definition new_Set :: "'a list \<Rightarrow> 'a list" where
  "new_Set xs = foldl Set_add [] xs"

text \<open>Thrown errors and rejected promises are values.\<close>

datatype 'a result = Throws string | Returns 'a

section \<open>The environment, the CRM and the billing provider\<close>

record env =
  GHL_V1_API_KEY :: "string option"
  GHL_LOCATION_ID :: "string option"
  STRIPE_WEBHOOK_SECRET :: "string option"
  CONVERTKIT_API_KEY :: "string option"
  CONVERTKIT_FORM_ID :: "string option"
  CONVERTKIT_TAG_IDS :: "string option"

text \<open>
  The \<^verbatim>\<open>tags\<close> property of a contact read from the CRM: missing (or falsy), an array of
  strings, or a truthy value that is no array (on which \<^verbatim>\<open>.map\<close> is not a function).
  \<^verbatim>\<open>String(t)\<close> is the identity on the strings of an array.
\<close>

datatype tags_field = TagsAbsent | TagsArray "string list" | TagsNotArray

record ghl_contact =
  c_tags :: tags_field

text \<open>The parsed body of the lookup response, by the shapes the lookup tells apart.\<close>

datatype contacts_json =
    Unparsable
  | FalsyValue
  | ContactsList "ghl_contact list"
  | ContactField ghl_contact
  | Bare ghl_contact

record 'b response =
  status :: nat
  body :: 'b

definition ok :: "'b response \<Rightarrow> bool" where
  \<comment> \<open>\<^verbatim>\<open>res.ok\<close>\<close>
  "ok res \<longleftrightarrow> 200 \<le> status res \<and> status res \<le> 299"

text \<open>
  A custom field value is a string; the ISO-8601 rendering of a time stamp in milliseconds,
  \<^verbatim>\<open>new Date(ms).toISOString()\<close>, is kept symbolic.
\<close>

datatype field_value = Str string | IsoString int

record payload =
  p_email :: string
  p_firstName :: "string option"
  p_lastName :: "string option"
  p_phone :: "string option"
  p_tags :: "string list"
  p_customFields :: "(string \<times> field_value) list"

text \<open>
  The outbound calls, as a test double would record them. The three ConvertKit and CRM
  posts are the writes; the Stripe customer read and the CRM lookup are reads.
\<close>

datatype call =
    StripeCustomersRetrieve string
  | GhlContactsGet string
  | GhlContactsPost payload
  | ConvertKitFormSubscribe string string string string
  | ConvertKitTagSubscribe string string string

text \<open>
  The outside world has a state \<open>'w\<close> of its own; every call may change it, and may fail.
\<close>

record 'w network =
  stripe_customers_retrieve :: "string \<Rightarrow> 'w \<Rightarrow> string option result \<times> 'w"
  ghl_contacts_get :: "string \<Rightarrow> 'w \<Rightarrow> contacts_json response result \<times> 'w"
  ghl_contacts_post :: "payload \<Rightarrow> 'w \<Rightarrow> string response result \<times> 'w"
  convertkit_post :: "call \<Rightarrow> 'w \<Rightarrow> unit result \<times> 'w"

section \<open>The CRM helpers of the webhook module\<close>

definition ghlV1GetContactByEmail ::
  "'w network \<Rightarrow> env \<Rightarrow> string \<Rightarrow> 'w \<Rightarrow> ghl_contact option \<times> call list \<times> 'w" where
  "ghlV1GetContactByEmail net e email w =
     (let apiKey = trim (js_or (GHL_V1_API_KEY e) []);
          locationId = trim (js_or (GHL_LOCATION_ID e) [])
      in if apiKey = [] \<or> locationId = [] \<or> email = [] then (None, [], w)
         else
           (case ghl_contacts_get net email w of
              (Throws err, w') \<Rightarrow> (None, [GhlContactsGet email], w')
            | (Returns res, w') \<Rightarrow>
                (if \<not> ok res then None
                 else (case body res of
                         Unparsable \<Rightarrow> None
                       | FalsyValue \<Rightarrow> None
                       | ContactsList cs \<Rightarrow> (case cs of [] \<Rightarrow> None | c # _ \<Rightarrow> Some c)
                       | ContactField c \<Rightarrow> Some c
                       | Bare c \<Rightarrow> Some c),
                 [GhlContactsGet email], w')))"

definition normalize_tags :: "string list \<Rightarrow> string list" where
  \<comment> \<open>\<^verbatim>\<open>.map(t => String(t).trim()).filter(Boolean)\<close>\<close>
  "normalize_tags ts = filter (\<lambda>t. t \<noteq> []) (map trim ts)"

definition existingTags :: "ghl_contact option \<Rightarrow> string list result" where
  \<comment> \<open>\<^verbatim>\<open>(existing?.tags || []).map(t => String(t).trim()).filter(Boolean)\<close>\<close>
  "existingTags existing =
     (case existing of
        None \<Rightarrow> Returns []
      | Some c \<Rightarrow>
          (case c_tags c of
             TagsAbsent \<Rightarrow> Returns []
           | TagsArray ts \<Rightarrow> Returns (normalize_tags ts)
           | TagsNotArray \<Rightarrow> Throws ''TypeError''))"

definition mergedTags :: "ghl_contact option \<Rightarrow> string list \<Rightarrow> string list" where
  \<comment> \<open>Steps 1 and 2 of the upsert: the new tags, then the existing ones merged in front;
      the \<^verbatim>\<open>catch\<close> keeps the list of step 1.\<close>
  "mergedTags existing tags =
     (let merged1 = new_Set (normalize_tags tags)
      in case existingTags existing of
           Throws err \<Rightarrow> merged1
         | Returns ex \<Rightarrow> new_Set (ex @ merged1))"

definition ghlV1UpsertContact ::
  "'w network \<Rightarrow> env \<Rightarrow> payload \<Rightarrow> 'w \<Rightarrow> string option result \<times> call list \<times> 'w" where
  "ghlV1UpsertContact net e args w =
     (if p_email args = [] then (Returns None, [], w)
      else
        let apiKey = trim (js_or (GHL_V1_API_KEY e) []);
            locationId = trim (js_or (GHL_LOCATION_ID e) [])
        in if apiKey = [] \<or> locationId = [] then (Returns None, [], w)
           else
             (case ghlV1GetContactByEmail net e (p_email args) w of
                (existing, calls1, w1) \<Rightarrow>
                  let pl = args\<lparr>p_tags := mergedTags existing (p_tags args)\<rparr>
                  in (case ghl_contacts_post net pl w1 of
                        (Throws err, w2) \<Rightarrow> (Throws err, calls1 @ [GhlContactsPost pl], w2)
                      | (Returns res, w2) \<Rightarrow>
                          (if \<not> ok res then Returns None else Returns (Some (body res)),
                           calls1 @ [GhlContactsPost pl], w2))))"

text \<open>
  The upsert helper of the earlier variant reads the two settings without trimming them
  and posts the payload as it was given, without a lookup. (It posts to
  \<^verbatim>\<open>/v1/contacts/upsert\<close>; the call is recorded like the post of the later variant.)
\<close>

definition ghlV1UpsertContact_earlier ::
  "'w network \<Rightarrow> env \<Rightarrow> payload \<Rightarrow> 'w \<Rightarrow> string option result \<times> call list \<times> 'w" where
  "ghlV1UpsertContact_earlier net e args w =
     (if p_email args = [] then (Returns None, [], w)
      else if \<not> truthy (GHL_V1_API_KEY e) \<or> \<not> truthy (GHL_LOCATION_ID e) then (Returns None, [], w)
      else
        (case ghl_contacts_post net args w of
           (Throws err, w2) \<Rightarrow> (Throws err, [GhlContactsPost args], w2)
         | (Returns res, w2) \<Rightarrow>
             (if \<not> ok res then Returns None else Returns (Some (body res)),
              [GhlContactsPost args], w2)))"

section \<open>Names, ConvertKit and the tag vocabulary\<close>

fun split_ws_acc :: "string \<Rightarrow> bool \<Rightarrow> string \<Rightarrow> string list" where
  \<comment> \<open>\<^verbatim>\<open>s.split(/\s+/)\<close>: \<open>cur\<close> is the piece being read (reversed), \<open>insep\<close> tells
      whether the scan stands inside a run of white space.\<close>
  "split_ws_acc cur insep [] = [rev cur]"
| "split_ws_acc cur insep (c # cs) =
     (if isWhiteSpace c
      then (if insep then split_ws_acc cur True cs else rev cur # split_ws_acc [] True cs)
      else split_ws_acc (c # cur) False cs)"

definition split_ws :: "string \<Rightarrow> string list" where
  "split_ws s = split_ws_acc [] False s"

fun split_char_acc :: "char \<Rightarrow> string \<Rightarrow> string \<Rightarrow> string list" where
  \<comment> \<open>\<^verbatim>\<open>s.split(",")\<close> for the separator \<open>sep\<close>\<close>
  "split_char_acc sep cur [] = [rev cur]"
| "split_char_acc sep cur (c # cs) =
     (if c = sep then rev cur # split_char_acc sep [] cs else split_char_acc sep (c # cur) cs)"

fun join :: "string \<Rightarrow> string list \<Rightarrow> string" where
  \<comment> \<open>\<^verbatim>\<open>parts.join(sep)\<close>\<close>
  "join sep [] = []"
| "join sep [p] = p"
| "join sep (p # q # ps) = p @ sep @ join sep (q # ps)"

definition splitName :: "string \<Rightarrow> string \<times> string" where
  "splitName full =
     (let parts = filter (\<lambda>p. p \<noteq> []) (split_ws (trim full))
      in (case parts of [] \<Rightarrow> [] | p # _ \<Rightarrow> p, join '' '' (drop 1 parts)))"

definition TAGS_STABLE_TRIAL :: string where "TAGS_STABLE_TRIAL = ''fc:trial_checkout''"
definition TAGS_STABLE_ACTIVE :: string where "TAGS_STABLE_ACTIVE = ''fc:payment_succeeded''"
definition TAGS_STABLE_SUB_ACTIVE :: string where "TAGS_STABLE_SUB_ACTIVE = ''fc:sub_active''"
definition TAGS_STABLE_DUNNING :: string where "TAGS_STABLE_DUNNING = ''fc:payment_failed''"
definition TAGS_STABLE_CANCELED :: string where "TAGS_STABLE_CANCELED = ''fc:sub_canceled''"

definition TAGS_evt_cs :: "string \<Rightarrow> string" where "TAGS_evt_cs ident = ''evt:cs_'' @ ident"
definition TAGS_evt_in :: "string \<Rightarrow> string" where "TAGS_evt_in ident = ''evt:in_'' @ ident"
definition TAGS_evt_sub :: "string \<Rightarrow> string" where "TAGS_evt_sub ident = ''evt:sub_'' @ ident"

fun subscribe_tags :: "'w network \<Rightarrow> string \<Rightarrow> string \<Rightarrow> string list \<Rightarrow> 'w \<Rightarrow> call list \<times> 'w" where
  \<comment> \<open>the \<^verbatim>\<open>for (const tagId of tagIds)\<close> loop; every rejection is caught\<close>
  "subscribe_tags net key email [] w = ([], w)"
| "subscribe_tags net key email (tagId # tagIds) w =
     (case convertkit_post net (ConvertKitTagSubscribe tagId key email) w of
        (r, w1) \<Rightarrow>
          (case subscribe_tags net key email tagIds w1 of
             (calls, w2) \<Rightarrow> (ConvertKitTagSubscribe tagId key email # calls, w2)))"

definition convertKitSubscribe ::
  "'w network \<Rightarrow> env \<Rightarrow> string \<Rightarrow> string \<Rightarrow> 'w \<Rightarrow> call list \<times> 'w" where
  "convertKitSubscribe net e email firstName w =
     (if \<not> truthy (CONVERTKIT_API_KEY e) then ([], w)
      else
        let key = js_or (CONVERTKIT_API_KEY e) [];
            (calls1, w1) =
              (if truthy (CONVERTKIT_FORM_ID e)
               then
                 (let c = ConvertKitFormSubscribe (js_or (CONVERTKIT_FORM_ID e) []) key email firstName
                  in (case convertkit_post net c w of (r, w') \<Rightarrow> ([c], w')))
               else ([], w));
            tagIds = filter (\<lambda>t. t \<noteq> [])
                       (map trim (split_char_acc CHR '','' [] (js_or (CONVERTKIT_TAG_IDS e) [])))
        in (case subscribe_tags net key email tagIds w1 of
              (calls2, w2) \<Rightarrow> (calls1 @ calls2, w2)))"

section \<open>Billing events and the webhook route\<close>

record customer_details =
  cd_email :: "string option"
  cd_name :: "string option"
  cd_phone :: "string option"

text \<open>
  \<^verbatim>\<open>event.data.object\<close>: the properties the handler reads, each a string or missing.
\<close>

record stripe_object =
  obj_id :: "string option"
  obj_customer_details :: "customer_details option"
  obj_customer_email :: "string option"
  obj_customer :: "string option"
  obj_subscription :: "string option"
  obj_status :: "string option"

record stripe_event =
  ev_type :: string
  ev_created :: "int option"
  ev_object :: stripe_object

record request =
  rawBody :: string
  stripe_signature :: "string option"

datatype reply_body = Send string | Json_received_true

datatype reply = Reply nat reply_body

definition customer_details_prop ::
  "stripe_object \<Rightarrow> (customer_details \<Rightarrow> string option) \<Rightarrow> string option" where
  \<comment> \<open>\<^verbatim>\<open>s?.customer_details?.<prop>\<close>\<close>
  "customer_details_prop s prop = (case obj_customer_details s of None \<Rightarrow> None | Some d \<Rightarrow> prop d)"

definition retrieve_customer_email ::
  "'w network \<Rightarrow> string option \<Rightarrow> 'w \<Rightarrow> string \<times> call list \<times> 'w" where
  \<comment> \<open>the block \<^verbatim>\<open>let email = ""; if (customerId) { try { ... } catch { ... } }\<close> of the
      two subscription cases\<close>
  "retrieve_customer_email net customerId w =
     (if \<not> truthy customerId then ([], [], w)
      else
        let cid = js_or customerId []
        in (case stripe_customers_retrieve net cid w of
              (Throws err, w') \<Rightarrow> ([], [StripeCustomersRetrieve cid], w')
            | (Returns customer_email, w') \<Rightarrow>
                (js_or customer_email [], [StripeCustomersRetrieve cid], w')))"

definition no_names :: "string \<Rightarrow> string list \<Rightarrow> (string \<times> field_value) list \<Rightarrow> payload" where
  \<comment> \<open>\<^verbatim>\<open>{ email, tags, customFields }\<close>: the name and the phone are undefined\<close>
  "no_names email tags customFields =
     \<lparr>p_email = email, p_firstName = None, p_lastName = None, p_phone = None,
      p_tags = tags, p_customFields = customFields\<rparr>"

text \<open>
  \<^verbatim>\<open>event.created\<close> is the time stamp of a Stripe event, a whole number of seconds since
  the epoch; it is \<open>None\<close> when the property is absent or not a number, so that the product
  \<^verbatim>\<open>event.created * 1000\<close> is \<^verbatim>\<open>NaN\<close>. A JavaScript \<^verbatim>\<open>Date\<close> holds at most
  8.64e15 milliseconds on either side of the epoch; beyond that, and for \<^verbatim>\<open>NaN\<close>, the
  date is invalid and \<^verbatim>\<open>toISOString\<close> throws a \<^verbatim>\<open>RangeError\<close>.
\<close>

definition toISOString :: "int option \<Rightarrow> field_value result" where
  \<comment> \<open>\<^verbatim>\<open>new Date(ms).toISOString()\<close>\<close>
  "toISOString ms =
     (case ms of
        None \<Rightarrow> Throws ''RangeError: Invalid time value''
      | Some t \<Rightarrow>
          if \<bar>t\<bar> \<le> 8640000000000000 then Returns (IsoString t)
          else Throws ''RangeError: Invalid time value'')"

definition event_time :: "stripe_event \<Rightarrow> field_value result" where
  \<comment> \<open>\<^verbatim>\<open>new Date(event.created * 1000).toISOString()\<close>\<close>
  "event_time event = toISOString (map_option (\<lambda>seconds. seconds * 1000) (ev_created event))"

definition on_checkout_session_completed ::
  "'w network \<Rightarrow> env \<Rightarrow> stripe_event \<Rightarrow> 'w \<Rightarrow> unit result \<times> call list \<times> 'w" where
  "on_checkout_session_completed net e event w =
     (let s = ev_object event;
          email = js_or (customer_details_prop s cd_email) (js_or (obj_customer_email s) [])
      in if email = [] then (Returns (), [], w)
         else
           let (first, last) = splitName (js_or (customer_details_prop s cd_name) []);
               phone = js_or (customer_details_prop s cd_phone) [];
               customerId = js_or (obj_customer s) [];
               sessionId = js_or (obj_id s) []
           in (case event_time event of
                 Throws err \<Rightarrow> (Throws err, [], w)
               | Returns time \<Rightarrow>
                   let customFields =
                         [(''Last Checkout Session ID'', Str sessionId),
                          (''Stripe Customer ID'', Str customerId),
                          (''Last Stripe Event Type'', Str (ev_type event)),
                          (''Last Stripe Event Time'', time)];
                       tags = [TAGS_STABLE_TRIAL, TAGS_evt_cs sessionId]
                   in (case ghlV1UpsertContact net e
                              \<lparr>p_email = email, p_firstName = Some first, p_lastName = Some last,
                               p_phone = Some phone, p_tags = tags, p_customFields = customFields\<rparr> w of
                         (Throws err, calls1, w1) \<Rightarrow> (Throws err, calls1, w1)
                       | (Returns data, calls1, w1) \<Rightarrow>
                           (case convertKitSubscribe net e email first w1 of
                              (calls2, w2) \<Rightarrow> (Returns (), calls1 @ calls2, w2)))))"

definition on_invoice ::
  "string \<Rightarrow> 'w network \<Rightarrow> env \<Rightarrow> stripe_event \<Rightarrow> 'w \<Rightarrow> unit result \<times> call list \<times> 'w" where
  \<comment> \<open>the cases \<^verbatim>\<open>invoice.payment_succeeded\<close> and \<^verbatim>\<open>invoice.payment_failed\<close>, which differ
      in the stable tag only\<close>
  "on_invoice stableTag net e event w =
     (let inv = ev_object event;
          email = js_or (obj_customer_email inv) []
      in if email = [] then (Returns (), [], w)
         else
           let invoiceId = js_or (obj_id inv) [];
               subId = js_or (obj_subscription inv) [];
               customerId = js_or (obj_customer inv) []
           in (case event_time event of
                 Throws err \<Rightarrow> (Throws err, [], w)
               | Returns time \<Rightarrow>
                   let customFields =
                         [(''Last Invoice ID'', Str invoiceId),
                          (''Last Subscription ID'', Str subId),
                          (''Stripe Customer ID'', Str customerId),
                          (''Last Stripe Event Type'', Str (ev_type event)),
                          (''Last Stripe Event Time'', time)];
                       tags = [stableTag, TAGS_evt_in invoiceId]
                                @ (if subId \<noteq> [] then [TAGS_evt_sub subId] else [])
                   in (case ghlV1UpsertContact net e (no_names email tags customFields) w of
                         (Throws err, calls1, w1) \<Rightarrow> (Throws err, calls1, w1)
                       | (Returns data, calls1, w1) \<Rightarrow> (Returns (), calls1, w1))))"

definition on_subscription ::
  "string list \<Rightarrow> 'w network \<Rightarrow> env \<Rightarrow> stripe_event \<Rightarrow> 'w \<Rightarrow> unit result \<times> call list \<times> 'w" where
  \<comment> \<open>the common part of \<^verbatim>\<open>customer.subscription.deleted\<close> and of
      \<^verbatim>\<open>customer.subscription.updated\<close> once the status is active; they differ in the
      stable tags only\<close>
  "on_subscription stableTags net e event w =
     (let sub = ev_object event;
          customerId = obj_customer sub
      in (case retrieve_customer_email net customerId w of
            (email, calls0, w0) \<Rightarrow>
              if email = [] then (Returns (), calls0, w0)
              else
                let subId = js_or (obj_id sub) []
                in (case event_time event of
                      Throws err \<Rightarrow> (Throws err, calls0, w0)
                    | Returns time \<Rightarrow>
                        let customFields =
                              [(''Last Subscription ID'', Str subId),
                               (''Stripe Customer ID'', Str (js_or customerId [])),
                               (''Last Stripe Event Type'', Str (ev_type event)),
                               (''Last Stripe Event Time'', time)];
                            tags = stableTags @ [TAGS_evt_sub subId]
                        in (case ghlV1UpsertContact net e (no_names email tags customFields) w0 of
                              (Throws err, calls1, w1) \<Rightarrow> (Throws err, calls0 @ calls1, w1)
                            | (Returns data, calls1, w1) \<Rightarrow> (Returns (), calls0 @ calls1, w1)))))"

definition dispatch ::
  "'w network \<Rightarrow> env \<Rightarrow> stripe_event \<Rightarrow> 'w \<Rightarrow> unit result \<times> call list \<times> 'w" where
  \<comment> \<open>\<^verbatim>\<open>switch (event.type)\<close>\<close>
  "dispatch net e event w =
     (if ev_type event = ''checkout.session.completed''
        then on_checkout_session_completed net e event w
      else if ev_type event = ''invoice.payment_succeeded''
        then on_invoice TAGS_STABLE_ACTIVE net e event w
      else if ev_type event = ''invoice.payment_failed''
        then on_invoice TAGS_STABLE_DUNNING net e event w
      else if ev_type event = ''customer.subscription.deleted''
        then on_subscription [TAGS_STABLE_CANCELED] net e event w
      else if ev_type event = ''customer.subscription.updated''
        then (if obj_status (ev_object event) \<noteq> Some ''active'' then (Returns (), [], w)
              else on_subscription [TAGS_STABLE_ACTIVE, TAGS_STABLE_SUB_ACTIVE] net e event w)
      else (Returns (), [], w))"

text \<open>
  The handler that \<^verbatim>\<open>registerStripeWebhooks\<close> installs on the route
  \<^verbatim>\<open>POST /api/stripe/webhook\<close>. The signature check of the Stripe library,
  \<^verbatim>\<open>stripe.webhooks.constructEvent(req.body, sig, secret)\<close>, is a parameter: it returns the
  parsed event or throws.
\<close>

definition webhook_handler ::
  "(string \<Rightarrow> string option \<Rightarrow> string option \<Rightarrow> stripe_event result) \<Rightarrow>
   'w network \<Rightarrow> env \<Rightarrow> request \<Rightarrow> 'w \<Rightarrow> reply \<times> call list \<times> 'w" where
  "webhook_handler constructEvent net e req w =
     (case constructEvent (rawBody req) (stripe_signature req) (STRIPE_WEBHOOK_SECRET e) of
        Throws message \<Rightarrow> (Reply 400 (Send (''Webhook Error: '' @ message)), [], w)
      | Returns event \<Rightarrow>
          (case dispatch net e event w of
             (Throws err, calls, w') \<Rightarrow> (Reply 500 (Send ''Server error''), calls, w')
           | (Returns u, calls, w') \<Rightarrow> (Reply 200 Json_received_true, calls, w')))"

section \<open>The stage id resolver\<close>

text \<open>
  \<^verbatim>\<open>resolveV1StageIdByName\<close> of the variant of the webhook module that creates
  opportunities. Below 256 the upper-case code units are A to Z and the Latin-1 capitals.
\<close>

definition toLowerCase_char :: "char \<Rightarrow> char" where
  "toLowerCase_char c =
     (let n = (of_char c :: nat)
      in if (65 \<le> n \<and> n \<le> 90) \<or> (192 \<le> n \<and> n \<le> 214) \<or> (216 \<le> n \<and> n \<le> 222)
         then char_of (n + 32) else c)"

definition toLowerCase :: "string \<Rightarrow> string" where
  "toLowerCase s = map toLowerCase_char s"

record opportunity =
  o_pipelineId :: "string option"
  o_stageName :: "string option"
  o_stageId :: "string option"

record stage =
  s_id :: "string option"
  s_name :: "string option"

text \<open>
  The parsed bodies. An opportunity list arrives as a top-level array or under
  \<^verbatim>\<open>opportunities\<close> or \<^verbatim>\<open>data\<close>; the stages of a pipeline under \<^verbatim>\<open>stages\<close>,
  \<^verbatim>\<open>pipeline.stages\<close> or \<^verbatim>\<open>data.stages\<close>. A missing property is \<open>None\<close>; an empty
  array is truthy, so it ends an \<^verbatim>\<open>||\<close> chain.
\<close>

datatype opps_json =
    OppsUnparsable
  | OppsArray "opportunity list"
  | OppsObject "opportunity list option" "opportunity list option"

datatype pipeline_json =
    PipelineUnparsable
  | PipelineObject "stage list option" "stage list option" "stage list option"

datatype probe =
    OpportunitiesFiltered string
  | OpportunitiesUnfiltered
  | PipelineGet string

record 'w ghl_v1 =
  get_opportunities_filtered :: "string \<Rightarrow> 'w \<Rightarrow> opps_json response result \<times> 'w"
  get_opportunities :: "'w \<Rightarrow> opps_json response result \<times> 'w"
  get_pipeline :: "string \<Rightarrow> 'w \<Rightarrow> pipeline_json response result \<times> 'w"

definition matchName :: "string \<Rightarrow> string option \<Rightarrow> bool" where
  \<comment> \<open>\<^verbatim>\<open>s => (s || "").toLowerCase() === (stageName || "").toLowerCase()\<close>\<close>
  "matchName stageName s \<longleftrightarrow> toLowerCase (js_or s []) = toLowerCase stageName"

definition opps_of :: "opps_json \<Rightarrow> opportunity list" where
  \<comment> \<open>\<^verbatim>\<open>Array.isArray(j) ? j : (j?.opportunities || j?.data || [])\<close>, after
      \<^verbatim>\<open>try { j = JSON.parse(t) } catch { j = [] }\<close>\<close>
  "opps_of j =
     (case j of
        OppsUnparsable \<Rightarrow> []
      | OppsArray os \<Rightarrow> os
      | OppsObject opportunities data \<Rightarrow>
          (case opportunities of Some os \<Rightarrow> os
           | None \<Rightarrow> (case data of Some ds \<Rightarrow> ds | None \<Rightarrow> [])))"

definition stages_of :: "pipeline_json \<Rightarrow> stage list" where
  \<comment> \<open>\<^verbatim>\<open>pj?.stages || pj?.pipeline?.stages || pj?.data?.stages || []\<close>, after
      \<^verbatim>\<open>try { pj = JSON.parse(tp) } catch { pj = {} }\<close>\<close>
  "stages_of pj =
     (case pj of
        PipelineUnparsable \<Rightarrow> []
      | PipelineObject stages pipeline_stages data_stages \<Rightarrow>
          (case stages of Some ss \<Rightarrow> ss
           | None \<Rightarrow> (case pipeline_stages of Some ss \<Rightarrow> ss
                      | None \<Rightarrow> (case data_stages of Some ss \<Rightarrow> ss | None \<Rightarrow> []))))"

definition truthy_id :: "string option \<Rightarrow> string option" where
  \<comment> \<open>\<^verbatim>\<open>if (hit?.stageId)\<close>: the id when it is a non-empty string\<close>
  "truthy_id i = (if truthy i then i else None)"

definition try1 :: "'w ghl_v1 \<Rightarrow> string \<Rightarrow> string \<Rightarrow> 'w \<Rightarrow> string option \<times> 'w" where
  \<comment> \<open>Try 1: the opportunities of the pipeline\<close>
  "try1 api pipelineId stageName w =
     (case get_opportunities_filtered api pipelineId w of
        (Throws err, w') \<Rightarrow> (None, w')
      | (Returns r, w') \<Rightarrow>
          (if ok r
           then (case find (\<lambda>opp. matchName stageName (o_stageName opp)) (opps_of (body r)) of
                   None \<Rightarrow> None
                 | Some hit \<Rightarrow> truthy_id (o_stageId hit))
           else None, w'))"

definition try2 :: "'w ghl_v1 \<Rightarrow> string \<Rightarrow> string \<Rightarrow> 'w \<Rightarrow> string option \<times> 'w" where
  \<comment> \<open>Try 2: all opportunities, filtered by the client\<close>
  "try2 api pipelineId stageName w =
     (case get_opportunities api w of
        (Throws err, w') \<Rightarrow> (None, w')
      | (Returns r2, w') \<Rightarrow>
          (if ok r2
           then
             (let opps2 = opps_of (body r2);
                  hit2 =
                    (case find (\<lambda>opp. o_pipelineId opp = Some pipelineId \<and> matchName stageName (o_stageName opp)) opps2 of
                       Some h \<Rightarrow> Some h
                     | None \<Rightarrow> find (\<lambda>opp. matchName stageName (o_stageName opp)) opps2)
              in (case hit2 of None \<Rightarrow> None | Some h \<Rightarrow> truthy_id (o_stageId h)))
           else None, w'))"

definition try3 :: "'w ghl_v1 \<Rightarrow> string \<Rightarrow> string \<Rightarrow> 'w \<Rightarrow> string option \<times> 'w" where
  \<comment> \<open>Try 3: the pipeline object\<close>
  "try3 api pipelineId stageName w =
     (case get_pipeline api pipelineId w of
        (Throws err, w') \<Rightarrow> (None, w')
      | (Returns rp, w') \<Rightarrow>
          (if ok rp
           then (case find (\<lambda>s. matchName stageName (s_name s)) (stages_of (body rp)) of
                   None \<Rightarrow> None
                 | Some s \<Rightarrow> truthy_id (s_id s))
           else None, w'))"

text \<open>
  The module-level \<^verbatim>\<open>_stageIdCache\<close> is part of the state; the result lists the probes
  this invocation has issued.
\<close>

definition resolveV1StageIdByName ::
  "'w ghl_v1 \<Rightarrow> env \<Rightarrow> string \<Rightarrow> string \<Rightarrow> (string \<rightharpoonup> string) \<times> 'w \<Rightarrow>
   string result \<times> probe list \<times> (string \<rightharpoonup> string) \<times> 'w" where
  "resolveV1StageIdByName api e pipelineId stageName st =
     (case st of (cache, w) \<Rightarrow>
        let key = pipelineId @ ''::'' @ stageName
        in (case cache key of
              Some cached \<Rightarrow> (Returns cached, [], cache, w)
            | None \<Rightarrow>
                let v1Key = trim (js_or (GHL_V1_API_KEY e) []);
                    loc = trim (js_or (GHL_LOCATION_ID e) [])
                in if v1Key = [] \<or> loc = []
                   then (Throws ''Missing GHL_V1_API_KEY or GHL_LOCATION_ID'', [], cache, w)
                   else
                     (case try1 api pipelineId stageName w of
                        (Some stageId, w1) \<Rightarrow>
                          (Returns stageId, [OpportunitiesFiltered pipelineId],
                           cache(key \<mapsto> stageId), w1)
                      | (None, w1) \<Rightarrow>
                          (case try2 api pipelineId stageName w1 of
                             (Some stageId, w2) \<Rightarrow>
                               (Returns stageId,
                                [OpportunitiesFiltered pipelineId, OpportunitiesUnfiltered],
                                cache(key \<mapsto> stageId), w2)
                           | (None, w2) \<Rightarrow>
                               (case try3 api pipelineId stageName w2 of
                                  (Some stageId, w3) \<Rightarrow>
                                    (Returns stageId,
                                     [OpportunitiesFiltered pipelineId, OpportunitiesUnfiltered,
                                      PipelineGet pipelineId],
                                     cache(key \<mapsto> stageId), w3)
                                | (None, w3) \<Rightarrow>
                                    (Throws (''Could not resolve v1 stageId for '' @ [CHR 0x22] @ stageName @ [CHR 0x22]),
                                     [OpportunitiesFiltered pipelineId, OpportunitiesUnfiltered,
                                      PipelineGet pipelineId],
                                     cache, w3))))))"

section \<open>Vocabulary of the properties\<close>

definition trimmed :: "string \<Rightarrow> bool" where
  \<comment> \<open>a non-empty string that neither starts nor ends with white space\<close>
  "trimmed s \<longleftrightarrow> s \<noteq> [] \<and> \<not> isWhiteSpace (hd s) \<and> \<not> isWhiteSpace (last s)"

definition existing_tag_list :: "ghl_contact option \<Rightarrow> string list" where
  \<comment> \<open>the tags of the contact as the lookup returned it: none without a contact or
      without an array of tags\<close>
  "existing_tag_list existing =
     (case existing of
        None \<Rightarrow> []
      | Some c \<Rightarrow> (case c_tags c of TagsArray ts \<Rightarrow> ts | _ \<Rightarrow> []))"

definition ghl_configured :: "env \<Rightarrow> bool" where
  \<comment> \<open>both CRM settings are present and not blank\<close>
  "ghl_configured e \<longleftrightarrow>
     trim (js_or (GHL_V1_API_KEY e) []) \<noteq> [] \<and> trim (js_or (GHL_LOCATION_ID e) []) \<noteq> []"

definition date_in_range :: "stripe_event \<Rightarrow> bool" where
  \<comment> \<open>the event carries a time stamp, at most 8.64e12 seconds before or after the epoch\<close>
  "date_in_range event \<longleftrightarrow>
     (case ev_created event of
        None \<Rightarrow> False
      | Some seconds \<Rightarrow> - 8640000000000 \<le> seconds \<and> seconds \<le> 8640000000000)"

definition is_write :: "call \<Rightarrow> bool" where
  "is_write c =
     (case c of
        StripeCustomersRetrieve cid \<Rightarrow> False
      | GhlContactsGet q \<Rightarrow> False
      | GhlContactsPost pl \<Rightarrow> True
      | ConvertKitFormSubscribe f k m n \<Rightarrow> True
      | ConvertKitTagSubscribe t k m \<Rightarrow> True)"

definition resolved_email :: "'w network \<Rightarrow> stripe_event \<Rightarrow> 'w \<Rightarrow> string" where
  \<comment> \<open>the value of the local variable \<^verbatim>\<open>email\<close> at the \<^verbatim>\<open>if (!email)\<close> check of the
      event's case; for the two subscription cases it comes from the customer read\<close>
  "resolved_email net event w =
     (let s = ev_object event
      in if ev_type event = ''checkout.session.completed''
           then js_or (customer_details_prop s cd_email) (js_or (obj_customer_email s) [])
         else if ev_type event = ''invoice.payment_succeeded'' \<or> ev_type event = ''invoice.payment_failed''
           then js_or (obj_customer_email s) []
         else if ev_type event = ''customer.subscription.deleted''
                 \<or> ev_type event = ''customer.subscription.updated''
           then fst (retrieve_customer_email net (obj_customer s) w)
         else [])"

definition lookup_unavailable :: "contacts_json response result \<Rightarrow> bool" where
  \<comment> \<open>the lookup request rejects, answers with an error status, or finds no contact\<close>
  "lookup_unavailable r =
     (case r of
        Throws err \<Rightarrow> True
      | Returns res \<Rightarrow>
          (if ok res
           then (case body res of
                   Unparsable \<Rightarrow> True
                 | FalsyValue \<Rightarrow> True
                 | ContactsList cs \<Rightarrow> cs = []
                 | ContactField c \<Rightarrow> False
                 | Bare c \<Rightarrow> False)
           else True))"

fun crm_posts :: "call list \<Rightarrow> payload list" where
  \<comment> \<open>the contacts posted to the CRM, in order\<close>
  "crm_posts [] = []"
| "crm_posts (GhlContactsPost pl # calls) = pl # crm_posts calls"
| "crm_posts (c # calls) = crm_posts calls"

definition world_at_lookup :: "'w network \<Rightarrow> stripe_event \<Rightarrow> 'w \<Rightarrow> 'w" where
  \<comment> \<open>the outside world as the CRM lookup of a delivery finds it: in the two subscription
      cases the customer read has come before\<close>
  "world_at_lookup net event w =
     (if ev_type event = ''customer.subscription.deleted''
         \<or> ev_type event = ''customer.subscription.updated''
      then snd (snd (retrieve_customer_email net (obj_customer (ev_object event)) w))
      else w)"

text \<open>
  What a reply resolves a stage name to, in the words of the specification: the stage id of
  the first listed opportunity, or stage, whose name is the stage name but for the case of
  its letters, provided that id is a non-empty string.
\<close>

definition offered :: "'b response result \<Rightarrow> 'b option" where
  \<comment> \<open>the body of a reply, when the request was answered with a success status\<close>
  "offered reply =
     (case reply of Throws err \<Rightarrow> None | Returns r \<Rightarrow> if ok r then Some (body r) else None)"

definition same_name :: "string \<Rightarrow> string option \<Rightarrow> bool" where
  \<comment> \<open>the name is the stage name but for the case of its letters; a missing name counts
      as the empty one\<close>
  "same_name stageName name \<longleftrightarrow>
     list_all2 (\<lambda>a b. toLowerCase_char a = toLowerCase_char b)
       (case name of None \<Rightarrow> [] | Some n \<Rightarrow> n) stageName"

definition first_id :: "string option list \<Rightarrow> string option" where
  \<comment> \<open>the id of the first candidate, when it is a non-empty string\<close>
  "first_id ids =
     (case ids of
        [] \<Rightarrow> None
      | i # _ \<Rightarrow> (case i of None \<Rightarrow> None | Some s \<Rightarrow> if s = [] then None else Some s))"

definition stage_id_in_listing :: "string \<Rightarrow> opps_json response result \<Rightarrow> string option" where
  \<comment> \<open>what a list of opportunities resolves the stage name to: the stage id of the first
      opportunity that stands in a stage of that name\<close>
  "stage_id_in_listing stageName reply =
     (case offered reply of
        None \<Rightarrow> None
      | Some j \<Rightarrow>
          first_id (map o_stageId (filter (\<lambda>opp. same_name stageName (o_stageName opp)) (opps_of j))))"

definition stage_id_in_all_opportunities ::
  "string \<Rightarrow> string \<Rightarrow> opps_json response result \<Rightarrow> string option" where
  \<comment> \<open>the same for the list of all opportunities, those of the pipeline coming first\<close>
  "stage_id_in_all_opportunities pipelineId stageName reply =
     (case offered reply of
        None \<Rightarrow> None
      | Some j \<Rightarrow>
          (let named = filter (\<lambda>opp. same_name stageName (o_stageName opp)) (opps_of j)
           in first_id (map o_stageId
                (filter (\<lambda>opp. o_pipelineId opp = Some pipelineId) named @ named))))"

definition stage_id_in_pipeline :: "string \<Rightarrow> pipeline_json response result \<Rightarrow> string option" where
  \<comment> \<open>what a pipeline object resolves the stage name to: the id of its first stage of
      that name\<close>
  "stage_id_in_pipeline stageName reply =
     (case offered reply of
        None \<Rightarrow> None
      | Some pj \<Rightarrow>
          first_id (map s_id (filter (\<lambda>s. same_name stageName (s_name s)) (stages_of pj))))"

fun resolve_all ::
  "'w ghl_v1 \<Rightarrow> env \<Rightarrow> (string \<times> string) list \<Rightarrow> (string \<rightharpoonup> string) \<times> 'w \<Rightarrow>
   (string \<rightharpoonup> string) \<times> 'w" where
  \<comment> \<open>a run of resolver calls, one after the other, on the shared cache\<close>
  "resolve_all api e [] st = st"
| "resolve_all api e ((pipelineId, stageName) # rest) st =
     resolve_all api e rest (snd (snd (resolveV1StageIdByName api e pipelineId stageName st)))"

section \<open>Test doubles\<close>

text \<open>
  A CRM that keeps, for every email, the contact it was last sent, and a billing provider
  with a fixed table of customers. Both always answer.
\<close>

record crm_world =
  contacts :: "(string \<times> payload) list"
  customers :: "(string \<times> string option) list"

definition mock_network :: "crm_world network" where
  "mock_network =
     \<lparr>stripe_customers_retrieve =
        (\<lambda>cid w. (case map_of (customers w) cid of
                     None \<Rightarrow> Throws ''No such customer''
                   | Some customer_email \<Rightarrow> Returns customer_email, w)),
      ghl_contacts_get =
        (\<lambda>q w. (Returns \<lparr>status = 200,
                            body = ContactsList
                              (case map_of (contacts w) q of
                                 None \<Rightarrow> []
                               | Some pl \<Rightarrow> [\<lparr>c_tags = TagsArray (p_tags pl)\<rparr>])\<rparr>, w)),
      ghl_contacts_post =
        (\<lambda>pl w. (Returns \<lparr>status = 200, body = ''{}''\<rparr>,
                   w\<lparr>contacts := AList.update (p_email pl) pl (contacts w)\<rparr>)),
      convertkit_post = (\<lambda>c w. (Returns (), w))\<rparr>"

text \<open>
  The same CRM behind a lookup that answers a given number of times and rejects from then
  on; the state carries the number of lookups that will still be answered.
\<close>

definition lookup_outage :: "(crm_world \<times> nat) network" where
  "lookup_outage =
     \<lparr>stripe_customers_retrieve =
        (\<lambda>cid (w, n). (fst (stripe_customers_retrieve mock_network cid w), (w, n))),
      ghl_contacts_get =
        (\<lambda>q (w, n). if n = 0 then (Throws ''ECONNRESET'', (w, n))
                     else (fst (ghl_contacts_get mock_network q w), (w, n - 1))),
      ghl_contacts_post =
        (\<lambda>pl (w, n). (fst (ghl_contacts_post mock_network pl w),
                       (snd (ghl_contacts_post mock_network pl w), n))),
      convertkit_post = (\<lambda>c (w, n). (Returns (), (w, n)))\<rparr>"

definition lookup_down :: "'w network \<Rightarrow> 'w network" where
  "lookup_down net = net\<lparr>ghl_contacts_get := (\<lambda>q w. (Throws ''ECONNRESET'', w))\<rparr>"

definition upsert_down :: "'w network \<Rightarrow> 'w network" where
  "upsert_down net = net\<lparr>ghl_contacts_post := (\<lambda>pl w. (Throws ''ECONNRESET'', w))\<rparr>"

definition test_env :: env where
  "test_env =
     \<lparr>GHL_V1_API_KEY = Some ''key'', GHL_LOCATION_ID = Some ''loc'',
      STRIPE_WEBHOOK_SECRET = Some ''whsec'', CONVERTKIT_API_KEY = Some ''ck'',
      CONVERTKIT_FORM_ID = Some ''7'', CONVERTKIT_TAG_IDS = Some ''1, 2''\<rparr>"

definition accept :: "stripe_event \<Rightarrow> string \<Rightarrow> string option \<Rightarrow> string option \<Rightarrow> stripe_event result" where
  \<comment> \<open>a signature check that accepts the header \<open>good\<close> and parses the body to \<open>event\<close>\<close>
  "accept event raw sig secret =
     (if sig = Some ''good'' then Returns event else Throws ''No signatures found'')"

definition signed :: request where
  "signed = \<lparr>rawBody = ''{}'', stripe_signature = Some ''good''\<rparr>"

definition unsigned :: request where
  "unsigned = \<lparr>rawBody = ''{}'', stripe_signature = None\<rparr>"

definition empty_object :: stripe_object where
  "empty_object =
     \<lparr>obj_id = None, obj_customer_details = None, obj_customer_email = None,
      obj_customer = None, obj_subscription = None, obj_status = None\<rparr>"

definition checkout_jane :: stripe_event where
  \<comment> \<open>the checkout scenario of the specification\<close>
  "checkout_jane =
     \<lparr>ev_type = ''checkout.session.completed'', ev_created = Some 1700000000,
      ev_object = empty_object
        \<lparr>obj_id := Some ''cs_1'',
         obj_customer_details :=
           Some \<lparr>cd_email = Some ''a@x.com'', cd_name = Some ''Jane Doe'', cd_phone = None\<rparr>\<rparr>\<rparr>"

definition invoice_failed :: "string \<Rightarrow> stripe_event" where
  \<comment> \<open>the failed-invoice scenario of the specification, for an invoice id\<close>
  "invoice_failed invoiceId =
     \<lparr>ev_type = ''invoice.payment_failed'', ev_created = Some 1700000000,
      ev_object = empty_object
        \<lparr>obj_id := Some invoiceId, obj_customer_email := Some ''a@x.com'',
         obj_subscription := Some ''sub_1''\<rparr>\<rparr>"

definition subscription_updated :: "string \<Rightarrow> stripe_event" where
  "subscription_updated st =
     \<lparr>ev_type = ''customer.subscription.updated'', ev_created = Some 1700000000,
      ev_object = empty_object
        \<lparr>obj_id := Some ''sub_1'', obj_customer := Some ''cus_1'', obj_status := Some st\<rparr>\<rparr>"

definition contact_with_tags :: "string list \<Rightarrow> payload" where
  "contact_with_tags ts =
     \<lparr>p_email = ''a@x.com'', p_firstName = None, p_lastName = None, p_phone = None,
      p_tags = ts, p_customFields = []\<rparr>"

definition world_with_tags :: "string list \<Rightarrow> crm_world" where
  \<comment> \<open>the CRM holds one contact with the given tags; the provider knows one customer\<close>
  "world_with_tags ts =
     \<lparr>contacts = [(''a@x.com'', contact_with_tags ts)],
      customers = [(''cus_1'', Some ''a@x.com'')]\<rparr>"

definition empty_world :: crm_world where
  "empty_world = \<lparr>contacts = [], customers = []\<rparr>"

definition world_without_email :: crm_world where
  \<comment> \<open>the provider knows the customer, who has no email\<close>
  "world_without_email = \<lparr>contacts = [], customers = [(''cus_1'', None)]\<rparr>"

definition mock_existing :: "crm_world \<Rightarrow> string \<Rightarrow> ghl_contact option" where
  \<comment> \<open>what the lookup of the test double finds for an email\<close>
  "mock_existing w email =
     (case map_of (contacts w) email of
        None \<Rightarrow> None
      | Some pl \<Rightarrow> Some \<lparr>c_tags = TagsArray (p_tags pl)\<rparr>)"

definition invoice_failed_contact :: "string list \<Rightarrow> payload" where
  \<comment> \<open>the contact that the failed-invoice scenario posts, for a tag list\<close>
  "invoice_failed_contact ts =
     \<lparr>p_email = ''a@x.com'', p_firstName = None, p_lastName = None, p_phone = None, p_tags = ts,
      p_customFields =
        [(''Last Invoice ID'', Str ''in_1''),
         (''Last Subscription ID'', Str ''sub_1''),
         (''Stripe Customer ID'', Str []),
         (''Last Stripe Event Type'', Str ''invoice.payment_failed''),
         (''Last Stripe Event Time'', IsoString 1700000000000)]\<rparr>"

text \<open>
  A CRM that answers the three probes of the resolver with given replies and records the
  requests it receives, in order: its state is the log of the requests.
\<close>

definition recording_api ::
  "opps_json response result \<Rightarrow> opps_json response result \<Rightarrow> pipeline_json response result \<Rightarrow>
   probe list ghl_v1" where
  "recording_api reply1 reply2 reply3 =
     \<lparr>get_opportunities_filtered =
        (\<lambda>pipelineId log. (reply1, log @ [OpportunitiesFiltered pipelineId])),
      get_opportunities = (\<lambda>log. (reply2, log @ [OpportunitiesUnfiltered])),
      get_pipeline = (\<lambda>pipelineId log. (reply3, log @ [PipelineGet pipelineId]))\<rparr>"

definition listing_with_trial :: "opps_json response result" where
  \<comment> \<open>the opportunities of pipeline \<open>p1\<close>, under \<^verbatim>\<open>opportunities\<close>\<close>
  "listing_with_trial =
     Returns \<lparr>status = 200,
              body = OppsObject
                (Some [\<lparr>o_pipelineId = Some ''p1'', o_stageName = Some ''Lead'', o_stageId = Some ''st_1''\<rparr>,
                       \<lparr>o_pipelineId = Some ''p1'', o_stageName = Some ''TRIAL'', o_stageId = Some ''st_9''\<rparr>])
                None\<rparr>"

definition listing_not_found :: "opps_json response result" where
  "listing_not_found = Returns \<lparr>status = 404, body = OppsUnparsable\<rparr>"

definition all_of_two_pipelines :: "opps_json response result" where
  \<comment> \<open>all opportunities, as a top-level array: one of another pipeline comes first\<close>
  "all_of_two_pipelines =
     Returns \<lparr>status = 200,
              body = OppsArray
                [\<lparr>o_pipelineId = Some ''p2'', o_stageName = Some ''Trial'', o_stageId = Some ''st_3''\<rparr>,
                 \<lparr>o_pipelineId = Some ''p1'', o_stageName = Some ''Trial'', o_stageId = Some ''st_9''\<rparr>]\<rparr>"

definition all_without_ids :: "opps_json response result" where
  \<comment> \<open>all opportunities, under \<^verbatim>\<open>data\<close>: the one in the stage carries no stage id\<close>
  "all_without_ids =
     Returns \<lparr>status = 200,
              body = OppsObject None
                (Some [\<lparr>o_pipelineId = Some ''p1'', o_stageName = Some ''Trial'', o_stageId = None\<rparr>])\<rparr>"

definition pipeline_with_stages :: "pipeline_json response result" where
  \<comment> \<open>the pipeline object, its stages under \<^verbatim>\<open>pipeline.stages\<close>\<close>
  "pipeline_with_stages =
     Returns \<lparr>status = 200,
              body = PipelineObject None
                (Some [\<lparr>s_id = Some ''st_5'', s_name = Some ''Lead''\<rparr>,
                       \<lparr>s_id = Some ''st_7'', s_name = Some ''Trial''\<rparr>])
                None\<rparr>"

definition unreachable :: "'b response result" where
  "unreachable = Throws ''ECONNRESET''"

section \<open>Sets, trimming and the merge\<close>

lemma set_foldl_Set_add: "set (foldl Set_add acc xs) = set acc \<union> set xs"
  by (induction xs arbitrary: acc) (auto simp: Set_add_def)

lemma set_new_Set: "set (new_Set xs) = set xs"
  by (simp add: new_Set_def set_foldl_Set_add)

lemma distinct_foldl_Set_add: "distinct acc \<Longrightarrow> distinct (foldl Set_add acc xs)"
  by (induction xs arbitrary: acc) (auto simp: Set_add_def)

lemma distinct_new_Set: "distinct (new_Set xs)"
  by (simp add: new_Set_def distinct_foldl_Set_add)

lemma foldl_Set_add_distinct: "distinct (acc @ xs) \<Longrightarrow> foldl Set_add acc xs = acc @ xs"
  by (induction xs arbitrary: acc) (auto simp: Set_add_def)

lemma foldl_Set_add_absorb: "set xs \<subseteq> set acc \<Longrightarrow> foldl Set_add acc xs = acc"
  by (induction xs arbitrary: acc) (auto simp: Set_add_def)

lemma new_Set_distinct: "distinct xs \<Longrightarrow> new_Set xs = xs"
  using foldl_Set_add_distinct [of "[]" xs] by (simp add: new_Set_def)

lemma new_Set_append_absorb: "distinct xs \<Longrightarrow> set ys \<subseteq> set xs \<Longrightarrow> new_Set (xs @ ys) = xs"
  using foldl_Set_add_distinct [of "[]" xs] by (simp add: new_Set_def foldl_Set_add_absorb)

lemma dropWhile_id_hd: "xs \<noteq> [] \<Longrightarrow> \<not> P (hd xs) \<Longrightarrow> dropWhile P xs = xs"
  by (cases xs) auto

lemma trim_trimmed: "trimmed s \<Longrightarrow> trim s = s"
  by (simp add: trimmed_def trim_def dropWhile_id_hd hd_rev)

lemma last_dropWhile_keep:
  assumes "xs \<noteq> []" "\<not> P (last xs)"
  shows "dropWhile P xs \<noteq> [] \<and> last (dropWhile P xs) = last xs"
proof -
  have ne: "dropWhile P xs \<noteq> []"
    using assms by (metis dropWhile_eq_Nil_conv last_in_set)
  have "xs = takeWhile P xs @ dropWhile P xs" by simp
  then have "last xs = last (dropWhile P xs)" using ne by (metis last_appendR)
  with ne show ?thesis by simp
qed

lemma trimmed_trim: "trim s \<noteq> [] \<Longrightarrow> trimmed (trim s)"
proof -
  assume ne: "trim s \<noteq> []"
  define a where "a = dropWhile isWhiteSpace s"
  define b where "b = dropWhile isWhiteSpace (rev a)"
  have t: "trim s = rev b" by (simp add: trim_def a_def b_def)
  have b: "b \<noteq> []" using ne t by simp
  then have hb: "\<not> isWhiteSpace (hd b)" unfolding b_def by (rule hd_dropWhile)
  have a: "a \<noteq> []" using b unfolding b_def by (cases a) auto
  then have ha: "\<not> isWhiteSpace (hd a)" unfolding a_def by (rule hd_dropWhile)
  have "\<not> isWhiteSpace (last (rev a))" using a ha by (simp add: last_rev)
  moreover have "rev a \<noteq> []" using a by simp
  ultimately have "last b = last (rev a)"
    unfolding b_def using last_dropWhile_keep by blast
  then have "hd (rev b) = hd a" using b a by (simp add: hd_rev last_rev)
  moreover have "last (rev b) = hd b" using b by (simp add: last_rev)
  ultimately show ?thesis using b ha hb by (simp add: trimmed_def t)
qed

lemma trim_idem: "trim (trim s) = trim s"
  by (cases "trim s = []") (simp_all add: trim_trimmed trimmed_trim, simp add: trim_def)

lemma normalize_tags_trimmed: "t \<in> set (normalize_tags ts) \<Longrightarrow> trimmed t"
  by (auto simp: normalize_tags_def trimmed_trim)

lemma normalize_tags_id: "\<forall>t\<in>set ts. trimmed t \<Longrightarrow> normalize_tags ts = ts"
  by (induction ts) (auto simp: normalize_tags_def trim_trimmed trimmed_def)

lemma set_mergedTags:
  "set (mergedTags ex tags) = set (normalize_tags (existing_tag_list ex)) \<union> set (normalize_tags tags)"
  by (auto simp: mergedTags_def existingTags_def existing_tag_list_def set_new_Set normalize_tags_def
        split: option.splits tags_field.splits)

lemma distinct_mergedTags: "distinct (mergedTags ex tags)"
  by (simp add: mergedTags_def Let_def distinct_new_Set split: result.splits)

lemma mergedTags_trimmed: "t \<in> set (mergedTags ex tags) \<Longrightarrow> trimmed t"
  unfolding set_mergedTags using normalize_tags_trimmed by blast

lemma mergedTags_idem:
  "mergedTags (Some \<lparr>c_tags = TagsArray (mergedTags ex tags)\<rparr>) tags = mergedTags ex tags"
proof -
  let ?T = "mergedTags ex tags"
  have n: "normalize_tags ?T = ?T"
    by (rule normalize_tags_id) (simp add: mergedTags_trimmed)
  have sub: "set (new_Set (normalize_tags tags)) \<subseteq> set ?T"
    by (simp add: set_new_Set set_mergedTags)
  have "mergedTags (Some \<lparr>c_tags = TagsArray ?T\<rparr>) tags = new_Set (?T @ new_Set (normalize_tags tags))"
    by (simp add: mergedTags_def [of "Some _"] Let_def existingTags_def n)
  also have "\<dots> = ?T" using distinct_mergedTags sub by (rule new_Set_append_absorb)
  finally show ?thesis .
qed

lemma upsert_calls:
  "fst (snd (ghlV1UpsertContact net e args w)) =
     (if p_email args = [] \<or> \<not> ghl_configured e then []
      else [GhlContactsGet (p_email args),
            GhlContactsPost (args\<lparr>p_tags :=
              mergedTags (fst (ghlV1GetContactByEmail net e (p_email args) w)) (p_tags args)\<rparr>)])"
  by (auto simp: ghlV1UpsertContact_def ghlV1GetContactByEmail_def ghl_configured_def Let_def
        split: prod.splits result.splits)

lemma trimmed_not_blank: "trimmed t \<Longrightarrow> t \<noteq> [] \<and> \<not> (\<forall>c\<in>set t. isWhiteSpace c)"
  by (cases t) (auto simp: trimmed_def)

lemma upsert_post_tags:
  "GhlContactsPost pl \<in> set (fst (snd (ghlV1UpsertContact net e args w))) \<Longrightarrow>
     p_tags pl = mergedTags (fst (ghlV1GetContactByEmail net e (p_email args) w)) (p_tags args)"
  by (simp add: upsert_calls split: if_splits)

section \<open>Evaluation on the test doubles\<close>

lemmas eval_defs =
  ghlV1UpsertContact_def ghlV1GetContactByEmail_def mock_network_def test_env_def trim_def
  isWhiteSpace_def js_or_def mergedTags_def existingTags_def normalize_tags_def new_Set_def
  Set_add_def ok_def contact_with_tags_def world_with_tags_def Let_def existing_tag_list_def

lemmas handler_defs =
  webhook_handler_def dispatch_def on_checkout_session_completed_def on_invoice_def
  on_subscription_def retrieve_customer_email_def convertKitSubscribe_def customer_details_prop_def
  no_names_def event_time_def toISOString_def splitName_def split_ws_def truthy_def accept_def signed_def
  unsigned_def empty_object_def checkout_jane_def invoice_failed_def subscription_updated_def
  empty_world_def lookup_down_def upsert_down_def
  TAGS_STABLE_TRIAL_def TAGS_STABLE_ACTIVE_def TAGS_STABLE_SUB_ACTIVE_def TAGS_STABLE_DUNNING_def
  TAGS_STABLE_CANCELED_def TAGS_evt_cs_def TAGS_evt_in_def TAGS_evt_sub_def

section \<open>The tag list written to the CRM\<close>

text \<open>
  Claim C10. Every tag list that \<^verbatim>\<open>ghlV1UpsertContact\<close> posts to the CRM is free of
  duplicates, and each of its tags is non-empty, unchanged by trimming and not made of
  white space only, whatever tag lists come in and whatever the lookup returns.
\<close>

theorem C10_sent_tags_distinct_and_non_blank:
  assumes "GhlContactsPost pl \<in> set (fst (snd (ghlV1UpsertContact net e args w)))"
  shows "distinct (p_tags pl) \<and>
         (\<forall>t\<in>set (p_tags pl). t \<noteq> [] \<and> trim t = t \<and> \<not> (\<forall>c\<in>set t. isWhiteSpace c))"
proof -
  define ex where "ex = fst (ghlV1GetContactByEmail net e (p_email args) w)"
  have pl: "p_tags pl = mergedTags ex (p_tags args)"
    unfolding ex_def using assms by (rule upsert_post_tags)
  have "distinct (p_tags pl)" by (simp add: pl distinct_mergedTags)
  moreover have "t \<noteq> [] \<and> trim t = t \<and> \<not> (\<forall>c\<in>set t. isWhiteSpace c)" if "t \<in> set (p_tags pl)" for t
  proof -
    from that have "trimmed t" by (simp add: pl mergedTags_trimmed)
    then show ?thesis using trimmed_not_blank trim_trimmed by blast
  qed
  ultimately show ?thesis by blast
qed

theorem C10_sent_tags_distinct_and_non_blank_witness:
  "GhlContactsPost (contact_with_tags [''a'', ''b'', ''c''])
     \<in> set (fst (snd (ghlV1UpsertContact mock_network test_env
                        (contact_with_tags ['' b '', [], ''b'', ''c''])
                        (world_with_tags [''a'', '' a'', ''  '']))))
   \<and> distinct (p_tags (contact_with_tags [''a'', ''b'', ''c'']))
   \<and> ''b'' \<in> set (p_tags (contact_with_tags [''a'', ''b'', ''c'']))
   \<and> trim ''b'' = ''b''"
proof -
  have h: "GhlContactsPost (contact_with_tags [''a'', ''b'', ''c''])
     \<in> set (fst (snd (ghlV1UpsertContact mock_network test_env
                        (contact_with_tags ['' b '', [], ''b'', ''c''])
                        (world_with_tags [''a'', '' a'', ''  '']))))"
    by (simp add: eval_defs)
  have m: "''b'' \<in> set (p_tags (contact_with_tags [''a'', ''b'', ''c'']))"
    by (simp add: contact_with_tags_def)
  note c = C10_sent_tags_distinct_and_non_blank [OF h]
  from c have d: "distinct (p_tags (contact_with_tags [''a'', ''b'', ''c'']))" by (rule conjunct1)
  from c [THEN conjunct2, THEN bspec, OF m] have "trim ''b'' = ''b''" by (simp only:)
  with h d m show ?thesis by (intro conjI)
qed

text \<open>
  Claim C1, as stated: the posted tag set equals the union of the existing tag set, as the
  lookup returned it, and the new tags, so it includes every existing tag. It fails when
  an existing tag carries white space around it: with the existing tags \<open>" A"\<close> and
  \<open>"B"\<close> and the new tags \<open>"B"\<close> and \<open>"C"\<close> the helper posts \<open>"A"\<close>, \<open>"B"\<close>,
  \<open>"C"\<close>, and the existing tag \<open>" A"\<close> is not among them.
\<close>

theorem C1_untrimmed_existing_tag_counterexample:
  "fst (snd (ghlV1UpsertContact mock_network test_env
               (contact_with_tags [''B'', ''C'']) (world_with_tags ['' A'', ''B''])))
     = [GhlContactsGet ''a@x.com'', GhlContactsPost (contact_with_tags [''A'', ''B'', ''C''])]
   \<and> existing_tag_list (fst (ghlV1GetContactByEmail mock_network test_env ''a@x.com''
                               (world_with_tags ['' A'', ''B''])))
     = ['' A'', ''B'']
   \<and> '' A'' \<notin> set (p_tags (contact_with_tags [''A'', ''B'', ''C'']))
   \<and> \<not> set ['' A'', ''B''] \<subseteq> set (p_tags (contact_with_tags [''A'', ''B'', ''C'']))"
  by (simp add: eval_defs)

text \<open>
  Claim C1, amended. Every tag list that \<^verbatim>\<open>ghlV1UpsertContact\<close> posts holds exactly the
  existing tags of the contact the lookup returned and the new tags, each trimmed, the
  empty ones dropped (a contact without an array of tags counts as having none). When no
  tag on either side is empty or has white space at its ends, the posted set is exactly
  the union of the two sets: existing \<open>{A, B}\<close> and new \<open>{B, C}\<close> give \<open>{A, B, C}\<close>.
  The statement is about the helper that merges; the helper of the earlier variant is
  left aside.
\<close>

theorem C1_upsert_sends_union_of_normalized_tags:
  assumes "GhlContactsPost pl \<in> set (fst (snd (ghlV1UpsertContact net e args w)))"
    and "existing = fst (ghlV1GetContactByEmail net e (p_email args) w)"
  shows "set (p_tags pl) =
           set (normalize_tags (existing_tag_list existing)) \<union> set (normalize_tags (p_tags args))
         \<and> ((\<forall>t \<in> set (existing_tag_list existing) \<union> set (p_tags args). trimmed t) \<longrightarrow>
              set (p_tags pl) = set (existing_tag_list existing) \<union> set (p_tags args))"
proof -
  from assms have pl: "p_tags pl = mergedTags existing (p_tags args)"
    by (simp add: upsert_post_tags)
  have 1: "set (p_tags pl) =
      set (normalize_tags (existing_tag_list existing)) \<union> set (normalize_tags (p_tags args))"
    by (simp add: pl set_mergedTags)
  have 2: "set (p_tags pl) = set (existing_tag_list existing) \<union> set (p_tags args)"
    if "\<forall>t \<in> set (existing_tag_list existing) \<union> set (p_tags args). trimmed t"
    using that by (simp add: 1 normalize_tags_id)
  from 1 2 show ?thesis by blast
qed

theorem C1_upsert_sends_union_of_normalized_tags_witness:
  "GhlContactsPost (contact_with_tags [''A'', ''B'', ''C''])
     \<in> set (fst (snd (ghlV1UpsertContact mock_network test_env
                        (contact_with_tags [''B'', ''C'']) (world_with_tags [''A'', ''B'']))))
   \<and> set (p_tags (contact_with_tags [''A'', ''B'', ''C''])) = set [''A'', ''B''] \<union> set [''B'', ''C'']"
proof -
  let ?args = "contact_with_tags [''B'', ''C'']"
  let ?w = "world_with_tags [''A'', ''B'']"
  let ?ex = "fst (ghlV1GetContactByEmail mock_network test_env (p_email ?args) ?w)"
  have h: "GhlContactsPost (contact_with_tags [''A'', ''B'', ''C''])
     \<in> set (fst (snd (ghlV1UpsertContact mock_network test_env ?args ?w)))"
    by (simp add: eval_defs)
  have ex: "existing_tag_list ?ex = [''A'', ''B'']" by (simp add: eval_defs)
  have args: "p_tags ?args = [''B'', ''C'']" by (simp add: contact_with_tags_def)
  have tr: "\<forall>t\<in>set (existing_tag_list ?ex) \<union> set (p_tags ?args). trimmed t"
    unfolding ex args by (simp add: trimmed_def isWhiteSpace_def)
  from C1_upsert_sends_union_of_normalized_tags [OF h refl, THEN conjunct2, THEN mp, OF tr]
  have "set (p_tags (contact_with_tags [''A'', ''B'', ''C'']))
          = set (existing_tag_list ?ex) \<union> set (p_tags ?args)" .
  then have "set (p_tags (contact_with_tags [''A'', ''B'', ''C''])) = set [''A'', ''B''] \<union> set [''B'', ''C'']"
    by (simp only: ex args)
  with h show ?thesis by (rule conjI)
qed

section \<open>The webhook route\<close>

text \<open>
  Claim C3. When the signature check throws, the handler answers 400, a client error
  status, issues no outbound call and leaves the outside world as it was.
\<close>

theorem C3_bad_signature_rejected:
  "constructEvent (rawBody req) (stripe_signature req) (STRIPE_WEBHOOK_SECRET e) = Throws message \<Longrightarrow>
     webhook_handler constructEvent net e req w
       = (Reply 400 (Send (''Webhook Error: '' @ message)), [], w)"
  by (simp add: webhook_handler_def)

theorem C3_bad_signature_rejected_witness:
  "accept checkout_jane (rawBody unsigned) (stripe_signature unsigned) (STRIPE_WEBHOOK_SECRET test_env)
     = Throws ''No signatures found''
   \<and> webhook_handler (accept checkout_jane) mock_network test_env unsigned empty_world
     = (Reply 400 (Send (''Webhook Error: '' @ ''No signatures found'')), [], empty_world)"
proof -
  have h: "accept checkout_jane (rawBody unsigned) (stripe_signature unsigned)
             (STRIPE_WEBHOOK_SECRET test_env) = Throws ''No signatures found''"
    by (simp add: accept_def unsigned_def)
  from h C3_bad_signature_rejected
      [where constructEvent = "accept checkout_jane" and req = unsigned and e = test_env
         and net = mock_network and w = empty_world, OF h]
  show ?thesis by (rule conjI)
qed

section \<open>Outbound calls of the handler\<close>

lemma retrieve_calls:
  "fst (snd (retrieve_customer_email net customerId w)) =
     (if truthy customerId then [StripeCustomersRetrieve (js_or customerId [])] else [])"
  by (simp add: retrieve_customer_email_def Let_def split: prod.splits result.splits)

lemma upsert_callsD:
  "ghlV1UpsertContact net e args w = (r, calls, w1) \<Longrightarrow>
     calls = (if p_email args = [] \<or> \<not> ghl_configured e then []
              else [GhlContactsGet (p_email args),
                    GhlContactsPost (args\<lparr>p_tags :=
                      mergedTags (fst (ghlV1GetContactByEmail net e (p_email args) w)) (p_tags args)\<rparr>)])"
  using upsert_calls [of net e args w] by simp

lemma retrieve_callsD:
  "retrieve_customer_email net customerId w = (email, calls, w1) \<Longrightarrow>
     calls = (if truthy customerId then [StripeCustomersRetrieve (js_or customerId [])] else [])"
  using retrieve_calls [of net customerId w] by simp

lemma on_subscription_no_email:
  assumes "fst (retrieve_customer_email net (obj_customer (ev_object event)) w) = []"
  shows "\<exists>calls w'. on_subscription stableTags net e event w = (Returns (), calls, w')
        \<and> (\<forall>c\<in>set calls. \<not> is_write c)"
proof -
  obtain email calls0 w0
    where r: "retrieve_customer_email net (obj_customer (ev_object event)) w = (email, calls0, w0)"
    by (cases "retrieve_customer_email net (obj_customer (ev_object event)) w") auto
  with assms have em: "email = []" by simp
  from retrieve_callsD [OF r] have "\<forall>c\<in>set calls0. \<not> is_write c"
    by (simp add: is_write_def)
  moreover have "on_subscription stableTags net e event w = (Returns (), calls0, w0)"
    by (simp add: on_subscription_def Let_def r em)
  ultimately show ?thesis by blast
qed

lemma dispatch_no_email:
  assumes "resolved_email net event w = []"
  shows "\<exists>calls w'. dispatch net e event w = (Returns (), calls, w') \<and> (\<forall>c\<in>set calls. \<not> is_write c)"
proof -
  consider (co) "ev_type event = ''checkout.session.completed''"
    | (inv) "ev_type event = ''invoice.payment_succeeded'' \<or> ev_type event = ''invoice.payment_failed''"
    | (sub) "ev_type event = ''customer.subscription.deleted'' \<or> ev_type event = ''customer.subscription.updated''"
    | (other) "ev_type event \<noteq> ''checkout.session.completed''" "ev_type event \<noteq> ''invoice.payment_succeeded''"
        "ev_type event \<noteq> ''invoice.payment_failed''" "ev_type event \<noteq> ''customer.subscription.deleted''"
        "ev_type event \<noteq> ''customer.subscription.updated''"
    by blast
  then show ?thesis
  proof cases
    case co
    with assms show ?thesis
      by (simp add: dispatch_def resolved_email_def on_checkout_session_completed_def Let_def)
  next
    case inv
    with assms show ?thesis
      by (auto simp: dispatch_def resolved_email_def on_invoice_def Let_def)
  next
    case sub
    with assms have "fst (retrieve_customer_email net (obj_customer (ev_object event)) w) = []"
      by (auto simp: resolved_email_def Let_def)
    from on_subscription_no_email [OF this] sub show ?thesis
      by (auto simp: dispatch_def)
  next
    case other
    then show ?thesis by (simp add: dispatch_def)
  qed
qed

lemma lookup_unavailable_None:
  assumes "lookup_unavailable (fst (ghl_contacts_get net email w))"
  shows "fst (ghlV1GetContactByEmail net e email w) = None"
  using assms
  by (auto simp: lookup_unavailable_def ghlV1GetContactByEmail_def Let_def
        split: prod.splits result.splits contacts_json.splits list.splits if_splits)

lemma mergedTags_None: "mergedTags None tags = new_Set (normalize_tags tags)"
  by (simp add: mergedTags_def existingTags_def Let_def new_Set_distinct distinct_new_Set)

lemma mergedTags_keeps_new: "t \<in> set tags \<Longrightarrow> trimmed t \<Longrightarrow> t \<in> set (mergedTags ex tags)"
  by (auto simp: set_mergedTags normalize_tags_def trim_trimmed trimmed_def intro!: image_eqI [where x = t])

lemma trimmed_stable_tags:
  "trimmed ''fc:trial_checkout''" "trimmed ''fc:payment_succeeded''" "trimmed ''fc:sub_active''"
  "trimmed ''fc:payment_failed''" "trimmed ''fc:sub_canceled''" "trimmed ''evt:cs_cs_1''"
  by (simp_all add: trimmed_def isWhiteSpace_def)

lemma milliseconds_in_range:
  "\<bar>seconds * 1000\<bar> \<le> 8640000000000000 \<longleftrightarrow> - 8640000000000 \<le> seconds \<and> seconds \<le> (8640000000000 :: int)"
  by arith

lemma event_time_eq:
  "event_time event =
     (if date_in_range event then Returns (IsoString (the (ev_created event) * 1000))
      else Throws ''RangeError: Invalid time value'')"
  by (cases "ev_created event")
     (simp_all add: date_in_range_def event_time_def toISOString_def milliseconds_in_range)

lemma event_time_cases:
  obtains (valid) time where "date_in_range event" "event_time event = Returns time"
  | (invalid) "\<not> date_in_range event" "event_time event = Throws ''RangeError: Invalid time value''"
  by (cases "date_in_range event") (simp_all add: event_time_eq)

lemma event_time_in_range: "date_in_range event \<Longrightarrow> \<exists>time. event_time event = Returns time"
  by (cases event rule: event_time_cases) auto

lemma event_time_out_of_range:
  "\<not> date_in_range event \<Longrightarrow> event_time event = Throws ''RangeError: Invalid time value''"
  by (cases event rule: event_time_cases) auto

lemma on_subscription_out_of_range:
  assumes r: "retrieve_customer_email net (obj_customer (ev_object event)) w = (email, calls0, w0)"
    and "email \<noteq> []" and "\<not> date_in_range event"
  shows "on_subscription stableTags net e event w
           = (Throws ''RangeError: Invalid time value'', calls0, w0)"
  using assms(2) event_time_out_of_range [OF assms(3)]
  by (simp add: on_subscription_def Let_def r)

lemma on_subscription_calls:
  assumes r: "retrieve_customer_email net (obj_customer (ev_object event)) w = (email, calls0, w0)"
  shows "\<exists>pl. fst (snd (on_subscription stableTags net e event w))
           = (if truthy (obj_customer (ev_object event))
              then [StripeCustomersRetrieve (js_or (obj_customer (ev_object event)) [])] else [])
             @ (if email = [] \<or> \<not> date_in_range event \<or> \<not> ghl_configured e then []
                else [GhlContactsGet email, GhlContactsPost pl])
         \<and> p_email pl = email
         \<and> (\<forall>t\<in>set stableTags. trimmed t \<longrightarrow> t \<in> set (p_tags pl))"
proof (cases event rule: event_time_cases)
  case (valid time)
  let ?args = "no_names email
       (stableTags @ [TAGS_evt_sub (js_or (obj_id (ev_object event)) [])])
       [(''Last Subscription ID'', Str (js_or (obj_id (ev_object event)) [])),
        (''Stripe Customer ID'', Str (js_or (obj_customer (ev_object event)) [])),
        (''Last Stripe Event Type'', Str (ev_type event)),
        (''Last Stripe Event Time'', time)]"
  let ?pl = "?args\<lparr>p_tags := mergedTags (fst (ghlV1GetContactByEmail net e email w0)) (p_tags ?args)\<rparr>"
  have c0: "calls0 = (if truthy (obj_customer (ev_object event))
              then [StripeCustomersRetrieve (js_or (obj_customer (ev_object event)) [])] else [])"
    using r by (rule retrieve_callsD)
  have em: "p_email ?args = email" by (simp add: no_names_def)
  have "fst (snd (on_subscription stableTags net e event w))
          = calls0 @ (if email = [] then [] else fst (snd (ghlV1UpsertContact net e ?args w0)))"
    by (simp add: on_subscription_def Let_def r valid(2) split: prod.splits result.splits)
  then have "fst (snd (on_subscription stableTags net e event w))
           = calls0 @ (if email = [] \<or> \<not> date_in_range event \<or> \<not> ghl_configured e then []
                else [GhlContactsGet email, GhlContactsPost ?pl])"
    by (simp add: upsert_calls em valid(1))
  moreover have "p_email ?pl = email" by (simp add: no_names_def)
  moreover have "\<forall>t\<in>set stableTags. trimmed t \<longrightarrow> t \<in> set (p_tags ?pl)"
    by (simp add: no_names_def mergedTags_keeps_new)
  ultimately show ?thesis unfolding c0 by blast
next
  case invalid
  let ?pl = "no_names email [t\<leftarrow>stableTags. trimmed t] []"
  have c0: "calls0 = (if truthy (obj_customer (ev_object event))
              then [StripeCustomersRetrieve (js_or (obj_customer (ev_object event)) [])] else [])"
    using r by (rule retrieve_callsD)
  have "fst (snd (on_subscription stableTags net e event w)) = calls0"
    by (simp add: on_subscription_def Let_def r invalid(2))
  then have "fst (snd (on_subscription stableTags net e event w))
           = calls0 @ (if email = [] \<or> \<not> date_in_range event \<or> \<not> ghl_configured e then []
                else [GhlContactsGet email, GhlContactsPost ?pl])"
    by (simp add: invalid(1))
  moreover have "p_email ?pl = email" by (simp add: no_names_def)
  moreover have "\<forall>t\<in>set stableTags. trimmed t \<longrightarrow> t \<in> set (p_tags ?pl)"
    by (simp add: no_names_def)
  ultimately show ?thesis unfolding c0 by blast
qed

lemma splitName_Jane_Doe: "splitName ''Jane Doe'' = (''Jane'', ''Doe'')"
  by (simp add: splitName_def split_ws_def trim_def isWhiteSpace_def)

text \<open>
  Claim C4. For an event whose identity resolution yields no email (none on the payload,
  none from the customer read), the handler issues no write, neither the CRM post nor a
  ConvertKit post, and answers 200 with \<^verbatim>\<open>{received: true}\<close>. The customer read of the
  subscription cases is the only call it may have made.
\<close>

theorem C4_no_email_no_write:
  assumes "constructEvent (rawBody req) (stripe_signature req) (STRIPE_WEBHOOK_SECRET e) = Returns event"
    and "resolved_email net event w = []"
  shows "fst (webhook_handler constructEvent net e req w) = Reply 200 Json_received_true
         \<and> (\<forall>c\<in>set (fst (snd (webhook_handler constructEvent net e req w))). \<not> is_write c)"
proof -
  from dispatch_no_email [OF assms(2)] obtain calls w'
    where "dispatch net e event w = (Returns (), calls, w')" "\<forall>c\<in>set calls. \<not> is_write c"
    by blast
  with assms(1) show ?thesis by (simp add: webhook_handler_def)
qed

theorem C4_no_email_no_write_witness:
  "accept (subscription_updated ''active'') (rawBody signed) (stripe_signature signed)
       (STRIPE_WEBHOOK_SECRET test_env) = Returns (subscription_updated ''active'')
   \<and> resolved_email mock_network (subscription_updated ''active'') world_without_email = []
   \<and> fst (webhook_handler (accept (subscription_updated ''active'')) mock_network test_env signed
            world_without_email) = Reply 200 Json_received_true"
proof -
  have h1: "accept (subscription_updated ''active'') (rawBody signed) (stripe_signature signed)
       (STRIPE_WEBHOOK_SECRET test_env) = Returns (subscription_updated ''active'')"
    by (simp add: accept_def signed_def)
  have h2: "resolved_email mock_network (subscription_updated ''active'') world_without_email = []"
    by (simp add: resolved_email_def handler_defs eval_defs world_without_email_def)
  from C4_no_email_no_write
         [where constructEvent = "accept (subscription_updated ''active'')" and req = signed
            and e = test_env and net = mock_network and w = world_without_email, OF h1 h2]
  have "fst (webhook_handler (accept (subscription_updated ''active'')) mock_network test_env signed
            world_without_email) = Reply 200 Json_received_true"
    by (rule conjunct1)
  with h1 h2 show ?thesis by simp
qed

lemma upsert_error_status_swallowed:
  assumes "ghlV1UpsertContact net e args w = (r, calls, w')"
    and "GhlContactsPost pl \<in> set calls"
    and "ghl_contacts_post net pl w1 = (Returns res, w2)"
    and "snd (snd (ghlV1GetContactByEmail net e (p_email args) w)) = w1"
  shows "\<exists>data. r = Returns data"
proof -
  from assms(1,2) have ne: "p_email args \<noteq> []" and conf: "ghl_configured e"
    by (auto dest!: upsert_callsD split: if_splits)
  from conf have k: "trim (js_or (GHL_V1_API_KEY e) []) \<noteq> []" "trim (js_or (GHL_LOCATION_ID e) []) \<noteq> []"
    by (simp_all add: ghl_configured_def)
  obtain ex c1 v1 where l: "ghlV1GetContactByEmail net e (p_email args) w = (ex, c1, v1)"
    by (cases "ghlV1GetContactByEmail net e (p_email args) w") auto
  with assms(4) have v1: "v1 = w1" by simp
  from assms(1,2) ne conf l have "pl = args\<lparr>p_tags := mergedTags ex (p_tags args)\<rparr>"
    by (auto dest!: upsert_callsD)
  with assms(1,3) ne k l v1 show ?thesis
    by (auto simp: ghlV1UpsertContact_def Let_def)
qed

lemma earlier_upsert_posts_tags_as_given:
  "GhlContactsPost pl \<in> set (fst (snd (ghlV1UpsertContact_earlier net e args w))) \<Longrightarrow> pl = args"
  by (auto simp: ghlV1UpsertContact_earlier_def split: if_splits prod.splits result.splits)

text \<open>
  Claim C5 says that no error of the CRM post reaches the response of the handler. The
  helper swallows an error status of the post, but the post itself is awaited outside any
  \<^verbatim>\<open>try\<close>: when it rejects, the rejection leaves the helper and the handler answers
  500. Here the checkout scenario runs against a CRM whose post rejects.
\<close>

theorem C5_upsert_rejection_answers_500:
  "webhook_handler (accept checkout_jane) (upsert_down mock_network) test_env signed empty_world
     = (Reply 500 (Send ''Server error''),
        [GhlContactsGet ''a@x.com'',
         GhlContactsPost
           \<lparr>p_email = ''a@x.com'', p_firstName = Some ''Jane'', p_lastName = Some ''Doe'',
            p_phone = Some [], p_tags = [''fc:trial_checkout'', ''evt:cs_cs_1''],
            p_customFields =
              [(''Last Checkout Session ID'', Str ''cs_1''),
               (''Stripe Customer ID'', Str []),
               (''Last Stripe Event Type'', Str ''checkout.session.completed''),
               (''Last Stripe Event Time'', IsoString 1700000000000)]\<rparr>],
        empty_world)"
  by (simp add: handler_defs eval_defs)

text \<open>
  Claim C6, as stated: after a failed lookup the post carries exactly the newly computed
  tags. It fails where a computed tag has white space at an end: for the invoice id
  \<open>"in_1 "\<close> the handler computes the tag \<open>"evt:in_in_1 "\<close> and the post carries
  \<open>"evt:in_in_1"\<close>.
\<close>

theorem C6_trailing_space_id_counterexample:
  "fst (snd (webhook_handler (accept (invoice_failed ''in_1 '')) (lookup_down mock_network) test_env
               signed (world_with_tags [''A''])))
     = [GhlContactsGet ''a@x.com'',
        GhlContactsPost
          \<lparr>p_email = ''a@x.com'', p_firstName = None, p_lastName = None, p_phone = None,
           p_tags = [''fc:payment_failed'', ''evt:in_in_1'', ''evt:sub_sub_1''],
           p_customFields =
             [(''Last Invoice ID'', Str ''in_1 ''),
              (''Last Subscription ID'', Str ''sub_1''),
              (''Stripe Customer ID'', Str []),
              (''Last Stripe Event Type'', Str ''invoice.payment_failed''),
              (''Last Stripe Event Time'', IsoString 1700000000000)]\<rparr>]
   \<and> [TAGS_STABLE_DUNNING, TAGS_evt_in ''in_1 '', TAGS_evt_sub ''sub_1'']
       \<noteq> [''fc:payment_failed'', ''evt:in_in_1'', ''evt:sub_sub_1'']"
  by (simp add: handler_defs eval_defs)

text \<open>
  Claim C6, amended. With an email and the CRM settings present, when the lookup request
  rejects, answers with an error status or finds no contact, the helper still posts, right
  after the lookup, and the post carries exactly the new tags as trimmed, without empty
  entries and duplicates: what it sends for a contact that has no tags. For new tags that
  are distinct, non-empty and free of white space at their ends these are the new tags
  themselves.
\<close>

theorem C6_lookup_failure_upsert_with_normalized_new_tags:
  assumes "p_email args \<noteq> []" and "ghl_configured e"
    and "lookup_unavailable (fst (ghl_contacts_get net (p_email args) w))"
  shows "fst (snd (ghlV1UpsertContact net e args w))
           = [GhlContactsGet (p_email args),
              GhlContactsPost (args\<lparr>p_tags := new_Set (normalize_tags (p_tags args))\<rparr>)]
         \<and> set (new_Set (normalize_tags (p_tags args))) = set (normalize_tags (p_tags args))
         \<and> (distinct (p_tags args) \<and> (\<forall>t\<in>set (p_tags args). trimmed t)
              \<longrightarrow> new_Set (normalize_tags (p_tags args)) = p_tags args)"
proof -
  have "fst (ghlV1GetContactByEmail net e (p_email args) w) = None"
    using assms(3) by (rule lookup_unavailable_None)
  then have "fst (snd (ghlV1UpsertContact net e args w))
           = [GhlContactsGet (p_email args),
              GhlContactsPost (args\<lparr>p_tags := new_Set (normalize_tags (p_tags args))\<rparr>)]"
    using assms(1,2) by (simp add: upsert_calls mergedTags_None)
  moreover have "new_Set (normalize_tags (p_tags args)) = p_tags args"
    if "distinct (p_tags args) \<and> (\<forall>t\<in>set (p_tags args). trimmed t)"
    using that by (simp add: normalize_tags_id new_Set_distinct)
  ultimately show ?thesis by (simp add: set_new_Set)
qed

theorem C6_lookup_failure_upsert_with_normalized_new_tags_witness:
  "p_email (contact_with_tags ['' B'', ''C'', ''C'']) \<noteq> []
   \<and> ghl_configured test_env
   \<and> lookup_unavailable (fst (ghl_contacts_get (lookup_down mock_network)
                                 (p_email (contact_with_tags ['' B'', ''C'', ''C'']))
                                 (world_with_tags [''A''])))
   \<and> fst (snd (ghlV1UpsertContact (lookup_down mock_network) test_env
                  (contact_with_tags ['' B'', ''C'', ''C'']) (world_with_tags [''A''])))
       = [GhlContactsGet ''a@x.com'', GhlContactsPost (contact_with_tags [''B'', ''C''])]
   \<and> distinct (p_tags (contact_with_tags [''B'', ''C'']))
   \<and> fst (snd (ghlV1UpsertContact (lookup_down mock_network) test_env
                  (contact_with_tags [''B'', ''C'']) (world_with_tags [''A''])))
       = [GhlContactsGet ''a@x.com'', GhlContactsPost (contact_with_tags [''B'', ''C''])]"
proof -
  let ?args = "contact_with_tags ['' B'', ''C'', ''C'']"
  let ?clean = "contact_with_tags [''B'', ''C'']"
  have h1: "p_email ?args \<noteq> []" by (simp add: contact_with_tags_def)
  have h2: "ghl_configured test_env" by (simp add: ghl_configured_def eval_defs)
  have h3: "lookup_unavailable (fst (ghl_contacts_get (lookup_down mock_network) (p_email ?args)
                                      (world_with_tags [''A''])))"
    by (simp add: lookup_unavailable_def lookup_down_def)
  have ev: "[GhlContactsGet (p_email ?args),
             GhlContactsPost (?args\<lparr>p_tags := new_Set (normalize_tags (p_tags ?args))\<rparr>)]
            = [GhlContactsGet ''a@x.com'', GhlContactsPost ?clean]"
    by (simp add: eval_defs)
  from C6_lookup_failure_upsert_with_normalized_new_tags [OF h1 h2 h3, THEN conjunct1]
  have untidy: "fst (snd (ghlV1UpsertContact (lookup_down mock_network) test_env ?args (world_with_tags [''A''])))
      = [GhlContactsGet ''a@x.com'', GhlContactsPost ?clean]"
    by (simp only: ev)
  have k1: "p_email ?clean \<noteq> []" by (simp add: contact_with_tags_def)
  have k3: "lookup_unavailable (fst (ghl_contacts_get (lookup_down mock_network) (p_email ?clean)
                                      (world_with_tags [''A''])))"
    by (simp add: lookup_unavailable_def lookup_down_def)
  have d: "distinct (p_tags ?clean)" by (simp add: contact_with_tags_def)
  have t: "\<forall>t\<in>set (p_tags ?clean). trimmed t"
    by (simp add: contact_with_tags_def trimmed_def isWhiteSpace_def)
  note c = C6_lookup_failure_upsert_with_normalized_new_tags [OF k1 h2 k3]
  from c [THEN conjunct2, THEN conjunct2, THEN mp, OF conjI [OF d t]]
  have same: "new_Set (normalize_tags (p_tags ?clean)) = p_tags ?clean" .
  have "fst (snd (ghlV1UpsertContact (lookup_down mock_network) test_env ?clean (world_with_tags [''A''])))
      = [GhlContactsGet (p_email ?clean), GhlContactsPost (?clean\<lparr>p_tags := p_tags ?clean\<rparr>)]"
    using c [THEN conjunct1] by (simp only: same)
  then have tidy: "fst (snd (ghlV1UpsertContact (lookup_down mock_network) test_env ?clean (world_with_tags [''A''])))
      = [GhlContactsGet ''a@x.com'', GhlContactsPost ?clean]"
    by (simp add: contact_with_tags_def)
  from h1 h2 h3 untidy d tidy show ?thesis by (intro conjI)
qed

text \<open>
  Claim C7. A \<^verbatim>\<open>customer.subscription.updated\<close> event whose status is not exactly
  \<open>active\<close> causes no outbound call at all and is answered with 200. With the status
  \<open>active\<close> the handler reads the customer (when the event names one). Once an email is
  resolved, the time stamp of the event is a valid date and the CRM settings are present, it
  then looks the contact up and posts, and the post carries both \<open>fc:payment_succeeded\<close>
  and \<open>fc:sub_active\<close>; otherwise the customer read is its only call. With an email and
  a time stamp that is no valid date it answers 500.
\<close>

theorem C7_subscription_updated_acts_only_when_active:
  assumes "constructEvent (rawBody req) (stripe_signature req) (STRIPE_WEBHOOK_SECRET e) = Returns event"
    and "ev_type event = ''customer.subscription.updated''"
  shows "(obj_status (ev_object event) \<noteq> Some ''active'' \<longrightarrow>
            webhook_handler constructEvent net e req w = (Reply 200 Json_received_true, [], w))
       \<and> (obj_status (ev_object event) = Some ''active'' \<longrightarrow>
            (if resolved_email net event w = [] \<or> \<not> date_in_range event \<or> \<not> ghl_configured e
             then fst (snd (webhook_handler constructEvent net e req w))
                    = (if truthy (obj_customer (ev_object event))
                       then [StripeCustomersRetrieve (js_or (obj_customer (ev_object event)) [])]
                       else [])
             else (\<exists>pl. fst (snd (webhook_handler constructEvent net e req w))
                          = (if truthy (obj_customer (ev_object event))
                             then [StripeCustomersRetrieve (js_or (obj_customer (ev_object event)) [])]
                             else [])
                            @ [GhlContactsGet (resolved_email net event w), GhlContactsPost pl]
                        \<and> p_email pl = resolved_email net event w
                        \<and> ''fc:payment_succeeded'' \<in> set (p_tags pl)
                        \<and> ''fc:sub_active'' \<in> set (p_tags pl)))
          \<and> (resolved_email net event w \<noteq> [] \<and> \<not> date_in_range event \<longrightarrow>
                fst (webhook_handler constructEvent net e req w) = Reply 500 (Send ''Server error'')))"
proof (intro conjI impI)
  assume "obj_status (ev_object event) \<noteq> Some ''active''"
  with assms show "webhook_handler constructEvent net e req w = (Reply 200 Json_received_true, [], w)"
    by (simp add: webhook_handler_def dispatch_def)
next
  assume act: "obj_status (ev_object event) = Some ''active''"
  let ?retrieve = "if truthy (obj_customer (ev_object event))
                   then [StripeCustomersRetrieve (js_or (obj_customer (ev_object event)) [])] else []"
  obtain email calls0 w0
    where r: "retrieve_customer_email net (obj_customer (ev_object event)) w = (email, calls0, w0)"
    by (cases "retrieve_customer_email net (obj_customer (ev_object event)) w") auto
  have re: "resolved_email net event w = email"
    using assms(2) r by (simp add: resolved_email_def Let_def)
  have d: "dispatch net e event w
             = on_subscription [TAGS_STABLE_ACTIVE, TAGS_STABLE_SUB_ACTIVE] net e event w"
    using assms(2) act by (simp add: dispatch_def)
  have h: "fst (snd (webhook_handler constructEvent net e req w))
             = fst (snd (on_subscription [TAGS_STABLE_ACTIVE, TAGS_STABLE_SUB_ACTIVE] net e event w))"
    using assms(1) by (simp add: webhook_handler_def d split: prod.splits result.splits)
  from on_subscription_calls [OF r, of "[TAGS_STABLE_ACTIVE, TAGS_STABLE_SUB_ACTIVE]" e]
  obtain pl where calls: "fst (snd (on_subscription [TAGS_STABLE_ACTIVE, TAGS_STABLE_SUB_ACTIVE] net e event w))
           = ?retrieve @ (if email = [] \<or> \<not> date_in_range event \<or> \<not> ghl_configured e then []
                          else [GhlContactsGet email, GhlContactsPost pl])"
    and pe: "p_email pl = email"
    and tags: "\<forall>t\<in>set [TAGS_STABLE_ACTIVE, TAGS_STABLE_SUB_ACTIVE]. trimmed t \<longrightarrow> t \<in> set (p_tags pl)"
    by blast
  from tags have t1: "''fc:payment_succeeded'' \<in> set (p_tags pl)"
    and t2: "''fc:sub_active'' \<in> set (p_tags pl)"
    by (simp_all add: TAGS_STABLE_ACTIVE_def TAGS_STABLE_SUB_ACTIVE_def trimmed_stable_tags)
  show "if resolved_email net event w = [] \<or> \<not> date_in_range event \<or> \<not> ghl_configured e
        then fst (snd (webhook_handler constructEvent net e req w)) = ?retrieve
        else (\<exists>pl. fst (snd (webhook_handler constructEvent net e req w))
                      = ?retrieve @ [GhlContactsGet (resolved_email net event w), GhlContactsPost pl]
                  \<and> p_email pl = resolved_email net event w
                  \<and> ''fc:payment_succeeded'' \<in> set (p_tags pl)
                  \<and> ''fc:sub_active'' \<in> set (p_tags pl))"
  proof (cases "email = [] \<or> \<not> date_in_range event \<or> \<not> ghl_configured e")
    case True
    then show ?thesis unfolding h re calls by simp
  next
    case False
    then have "fst (snd (on_subscription [TAGS_STABLE_ACTIVE, TAGS_STABLE_SUB_ACTIVE] net e event w))
           = ?retrieve @ [GhlContactsGet email, GhlContactsPost pl]"
      unfolding calls by simp
    with pe t1 t2 have "\<exists>pl. fst (snd (on_subscription [TAGS_STABLE_ACTIVE, TAGS_STABLE_SUB_ACTIVE] net e event w))
                      = ?retrieve @ [GhlContactsGet email, GhlContactsPost pl]
                  \<and> p_email pl = email
                  \<and> ''fc:payment_succeeded'' \<in> set (p_tags pl)
                  \<and> ''fc:sub_active'' \<in> set (p_tags pl)"
      by blast
    with False show ?thesis unfolding h re by simp
  qed
  show "fst (webhook_handler constructEvent net e req w) = Reply 500 (Send ''Server error'')"
    if "resolved_email net event w \<noteq> [] \<and> \<not> date_in_range event"
  proof -
    from that re have "email \<noteq> []" "\<not> date_in_range event" by simp_all
    with r have "on_subscription [TAGS_STABLE_ACTIVE, TAGS_STABLE_SUB_ACTIVE] net e event w
                   = (Throws ''RangeError: Invalid time value'', calls0, w0)"
      by (rule on_subscription_out_of_range)
    with assms(1) show ?thesis by (simp add: webhook_handler_def d)
  qed
qed

theorem C7_subscription_updated_acts_only_when_active_witness:
  "accept (subscription_updated ''past_due'') (rawBody signed) (stripe_signature signed)
       (STRIPE_WEBHOOK_SECRET test_env) = Returns (subscription_updated ''past_due'')
   \<and> ev_type (subscription_updated ''past_due'') = ''customer.subscription.updated''
   \<and> webhook_handler (accept (subscription_updated ''past_due'')) mock_network test_env signed
        (world_with_tags [''A''])
       = (Reply 200 Json_received_true, [], world_with_tags [''A''])
   \<and> accept (subscription_updated ''active'') (rawBody signed) (stripe_signature signed)
       (STRIPE_WEBHOOK_SECRET test_env) = Returns (subscription_updated ''active'')
   \<and> obj_status (ev_object (subscription_updated ''active'')) = Some ''active''
   \<and> resolved_email mock_network (subscription_updated ''active'') (world_with_tags [''A'']) = ''a@x.com''
   \<and> date_in_range (subscription_updated ''active'')
   \<and> ghl_configured test_env
   \<and> (\<exists>pl. fst (snd (webhook_handler (accept (subscription_updated ''active'')) mock_network
                         test_env signed (world_with_tags [''A''])))
               = [StripeCustomersRetrieve ''cus_1'', GhlContactsGet ''a@x.com'', GhlContactsPost pl]
            \<and> ''fc:payment_succeeded'' \<in> set (p_tags pl) \<and> ''fc:sub_active'' \<in> set (p_tags pl))
   \<and> accept ((subscription_updated ''active'')\<lparr>ev_created := None\<rparr>) (rawBody signed)
       (stripe_signature signed) (STRIPE_WEBHOOK_SECRET test_env)
       = Returns ((subscription_updated ''active'')\<lparr>ev_created := None\<rparr>)
   \<and> \<not> date_in_range ((subscription_updated ''active'')\<lparr>ev_created := None\<rparr>)
   \<and> fst (snd (webhook_handler (accept ((subscription_updated ''active'')\<lparr>ev_created := None\<rparr>))
                  mock_network test_env signed (world_with_tags [''A''])))
       = [StripeCustomersRetrieve ''cus_1'']
   \<and> fst (webhook_handler (accept ((subscription_updated ''active'')\<lparr>ev_created := None\<rparr>))
             mock_network test_env signed (world_with_tags [''A'']))
       = Reply 500 (Send ''Server error'')"
proof -
  let ?ev = "subscription_updated ''past_due''"
  let ?act = "subscription_updated ''active''"
  let ?bad = "(subscription_updated ''active'')\<lparr>ev_created := None\<rparr>"
  let ?w = "world_with_tags [''A'']"
  have h1: "accept ?ev (rawBody signed) (stripe_signature signed) (STRIPE_WEBHOOK_SECRET test_env)
              = Returns ?ev"
    by (simp add: accept_def signed_def)
  have h2: "ev_type ?ev = ''customer.subscription.updated''"
    by (simp add: subscription_updated_def)
  have h3: "obj_status (ev_object ?ev) \<noteq> Some ''active''"
    by (simp add: subscription_updated_def empty_object_def)
  from C7_subscription_updated_acts_only_when_active
         [where constructEvent = "accept ?ev" and req = signed and e = test_env
            and net = mock_network and w = ?w, OF h1 h2,
          THEN conjunct1, THEN mp, OF h3]
  have past_due: "webhook_handler (accept ?ev) mock_network test_env signed ?w
          = (Reply 200 Json_received_true, [], ?w)" .
  have g1: "accept ?act (rawBody signed) (stripe_signature signed) (STRIPE_WEBHOOK_SECRET test_env)
              = Returns ?act"
    by (simp add: accept_def signed_def)
  have g2: "ev_type ?act = ''customer.subscription.updated''"
    by (simp add: subscription_updated_def)
  have g3: "obj_status (ev_object ?act) = Some ''active''"
    by (simp add: subscription_updated_def empty_object_def)
  have cust: "truthy (obj_customer (ev_object ?act))"
    and cid: "js_or (obj_customer (ev_object ?act)) [] = ''cus_1''"
    by (simp_all add: subscription_updated_def empty_object_def truthy_def js_or_def)
  have email: "resolved_email mock_network ?act ?w = ''a@x.com''"
    by (simp add: resolved_email_def handler_defs eval_defs)
  have date: "date_in_range ?act"
    by (simp add: date_in_range_def subscription_updated_def)
  have conf: "ghl_configured test_env" by (simp add: ghl_configured_def eval_defs)
  have go: "\<not> (resolved_email mock_network ?act ?w = [] \<or> \<not> date_in_range ?act
                \<or> \<not> ghl_configured test_env)"
    using email date conf by simp
  from C7_subscription_updated_acts_only_when_active
         [where constructEvent = "accept ?act" and req = signed and e = test_env
            and net = mock_network and w = ?w, OF g1 g2,
          THEN conjunct2, THEN mp, OF g3, THEN conjunct1]
  have "\<exists>pl. fst (snd (webhook_handler (accept ?act) mock_network test_env signed ?w))
                = (if truthy (obj_customer (ev_object ?act))
                   then [StripeCustomersRetrieve (js_or (obj_customer (ev_object ?act)) [])] else [])
                  @ [GhlContactsGet (resolved_email mock_network ?act ?w), GhlContactsPost pl]
              \<and> p_email pl = resolved_email mock_network ?act ?w
              \<and> ''fc:payment_succeeded'' \<in> set (p_tags pl)
              \<and> ''fc:sub_active'' \<in> set (p_tags pl)"
    by (simp only: go if_False)
  then obtain pl where
    "fst (snd (webhook_handler (accept ?act) mock_network test_env signed ?w))
       = (if truthy (obj_customer (ev_object ?act))
          then [StripeCustomersRetrieve (js_or (obj_customer (ev_object ?act)) [])] else [])
         @ [GhlContactsGet (resolved_email mock_network ?act ?w), GhlContactsPost pl]"
    and tags: "''fc:payment_succeeded'' \<in> set (p_tags pl)" "''fc:sub_active'' \<in> set (p_tags pl)"
    by blast
  then have "fst (snd (webhook_handler (accept ?act) mock_network test_env signed ?w))
       = [StripeCustomersRetrieve ''cus_1'', GhlContactsGet ''a@x.com'', GhlContactsPost pl]"
    by (simp only: cust cid email if_True append.simps)
  with tags have active: "\<exists>pl. fst (snd (webhook_handler (accept ?act) mock_network test_env signed ?w))
               = [StripeCustomersRetrieve ''cus_1'', GhlContactsGet ''a@x.com'', GhlContactsPost pl]
            \<and> ''fc:payment_succeeded'' \<in> set (p_tags pl) \<and> ''fc:sub_active'' \<in> set (p_tags pl)"
    by blast
  have b1: "accept ?bad (rawBody signed) (stripe_signature signed) (STRIPE_WEBHOOK_SECRET test_env)
              = Returns ?bad"
    by (simp add: accept_def signed_def)
  have b2: "ev_type ?bad = ''customer.subscription.updated''"
    by (simp add: subscription_updated_def)
  have b3: "obj_status (ev_object ?bad) = Some ''active''"
    by (simp add: subscription_updated_def empty_object_def)
  have bcust: "truthy (obj_customer (ev_object ?bad))"
    and bcid: "js_or (obj_customer (ev_object ?bad)) [] = ''cus_1''"
    by (simp_all add: subscription_updated_def empty_object_def truthy_def js_or_def)
  have bemail: "resolved_email mock_network ?bad ?w \<noteq> []"
    by (simp add: resolved_email_def handler_defs eval_defs)
  have bdate: "\<not> date_in_range ?bad"
    by (simp add: date_in_range_def)
  have stop: "resolved_email mock_network ?bad ?w = [] \<or> \<not> date_in_range ?bad
                \<or> \<not> ghl_configured test_env"
    using bdate by simp
  note bad = C7_subscription_updated_acts_only_when_active
         [where constructEvent = "accept ?bad" and req = signed and e = test_env
            and net = mock_network and w = ?w, OF b1 b2,
          THEN conjunct2, THEN mp, OF b3]
  from bad [THEN conjunct1]
  have "fst (snd (webhook_handler (accept ?bad) mock_network test_env signed ?w))
          = (if truthy (obj_customer (ev_object ?bad))
             then [StripeCustomersRetrieve (js_or (obj_customer (ev_object ?bad)) [])] else [])"
    by (simp only: stop if_True)
  then have bad_calls: "fst (snd (webhook_handler (accept ?bad) mock_network test_env signed ?w))
          = [StripeCustomersRetrieve ''cus_1'']"
    by (simp only: bcust bcid if_True)
  from bad [THEN conjunct2, THEN mp, OF conjI [OF bemail bdate]]
  have bad_reply: "fst (webhook_handler (accept ?bad) mock_network test_env signed ?w)
          = Reply 500 (Send ''Server error'')" .
  from h1 h2 past_due g1 g3 email date conf active b1 bdate bad_calls bad_reply
  show ?thesis by (intro conjI)
qed

text \<open>
  Claim C8, as stated: for every \<^verbatim>\<open>checkout.session.completed\<close> event with the customer
  email \<open>a@x.com\<close>, the name \<open>Jane Doe\<close> and the session id \<open>cs_1\<close> the upsert is
  invoked. It fails for an event whose time stamp is no valid date: with
  \<^verbatim>\<open>created\<close> at 8640000000001 seconds,
  \<^verbatim>\<open>new Date(event.created * 1000).toISOString()\<close> throws while the custom fields are
  built, before the upsert helper is called; the handler answers 500 and has issued no call.
\<close>

theorem C8_invalid_date_counterexample:
  "ev_type (checkout_jane\<lparr>ev_created := Some 8640000000001\<rparr>) = ''checkout.session.completed''
   \<and> obj_customer_details (ev_object (checkout_jane\<lparr>ev_created := Some 8640000000001\<rparr>))
       = Some \<lparr>cd_email = Some ''a@x.com'', cd_name = Some ''Jane Doe'', cd_phone = None\<rparr>
   \<and> obj_id (ev_object (checkout_jane\<lparr>ev_created := Some 8640000000001\<rparr>)) = Some ''cs_1''
   \<and> webhook_handler (accept (checkout_jane\<lparr>ev_created := Some 8640000000001\<rparr>)) mock_network
        test_env signed empty_world
       = (Reply 500 (Send ''Server error''), [], empty_world)"
  by (simp add: handler_defs eval_defs)

text \<open>
  Claim C8, amended. For a \<^verbatim>\<open>checkout.session.completed\<close> event with the customer email
  \<open>a@x.com\<close>, the name \<open>Jane Doe\<close>, the session id \<open>cs_1\<close> and a time stamp that is
  a valid date, the handler calls the upsert helper with the tags \<open>fc:trial_checkout\<close> and
  \<open>evt:cs_cs_1\<close>, the first name \<open>Jane\<close> and the last name \<open>Doe\<close>; with the CRM
  settings present the post that follows the lookup carries both tags and both names. With a
  time stamp that is no valid date the handler answers 500 and issues no call.
\<close>

theorem C8_checkout_scenario:
  assumes "constructEvent (rawBody req) (stripe_signature req) (STRIPE_WEBHOOK_SECRET e) = Returns event"
    and "ev_type event = ''checkout.session.completed''"
    and "obj_customer_details (ev_object event) = Some d"
    and "cd_email d = Some ''a@x.com''" and "cd_name d = Some ''Jane Doe''"
    and "obj_id (ev_object event) = Some ''cs_1''"
  shows "(date_in_range event \<longrightarrow>
            (\<exists>args. p_email args = ''a@x.com'' \<and> p_firstName args = Some ''Jane''
               \<and> p_lastName args = Some ''Doe''
               \<and> p_tags args = [''fc:trial_checkout'', ''evt:cs_cs_1'']
               \<and> webhook_handler constructEvent net e req w
                  = (case ghlV1UpsertContact net e args w of
                       (Throws err, calls1, w1) \<Rightarrow> (Reply 500 (Send ''Server error''), calls1, w1)
                     | (Returns data, calls1, w1) \<Rightarrow>
                         (case convertKitSubscribe net e ''a@x.com'' ''Jane'' w1 of
                            (calls2, w2) \<Rightarrow> (Reply 200 Json_received_true, calls1 @ calls2, w2))))
          \<and> (ghl_configured e \<longrightarrow>
               (\<exists>pl rest. fst (snd (webhook_handler constructEvent net e req w))
                             = GhlContactsGet ''a@x.com'' # GhlContactsPost pl # rest
                  \<and> p_firstName pl = Some ''Jane'' \<and> p_lastName pl = Some ''Doe''
                  \<and> ''fc:trial_checkout'' \<in> set (p_tags pl)
                  \<and> ''evt:cs_cs_1'' \<in> set (p_tags pl))))
       \<and> (\<not> date_in_range event \<longrightarrow>
            webhook_handler constructEvent net e req w = (Reply 500 (Send ''Server error''), [], w))"
    (is "(_ \<longrightarrow> ?invoked) \<and> (_ \<longrightarrow> ?refused)")
proof -
  have em: "js_or (customer_details_prop (ev_object event) cd_email)
              (js_or (obj_customer_email (ev_object event)) []) = ''a@x.com''"
    using assms(3,4) by (simp add: customer_details_prop_def js_or_def)
  have refused: ?refused if invalid: "\<not> date_in_range event"
  proof -
    have "dispatch net e event w = (Throws ''RangeError: Invalid time value'', [], w)"
      using assms(2) event_time_out_of_range [OF invalid]
      by (simp add: dispatch_def on_checkout_session_completed_def Let_def em split: prod.splits)
    with assms(1) show ?thesis by (simp add: webhook_handler_def)
  qed
  have invoked: ?invoked if valid: "date_in_range event"
  proof -
    from valid obtain time where time: "event_time event = Returns time"
      using event_time_in_range by blast
    let ?args = "\<lparr>p_email = ''a@x.com'', p_firstName = Some ''Jane'', p_lastName = Some ''Doe'',
         p_phone = Some (js_or (cd_phone d) []), p_tags = [''fc:trial_checkout'', ''evt:cs_cs_1''],
         p_customFields =
           [(''Last Checkout Session ID'', Str ''cs_1''),
            (''Stripe Customer ID'', Str (js_or (obj_customer (ev_object event)) [])),
            (''Last Stripe Event Type'', Str (ev_type event)),
            (''Last Stripe Event Time'', time)]\<rparr>"
    have nm: "js_or (customer_details_prop (ev_object event) cd_name) [] = ''Jane Doe''"
      using assms(3,5) by (simp add: customer_details_prop_def js_or_def)
    have ph: "customer_details_prop (ev_object event) cd_phone = cd_phone d"
      using assms(3) by (simp add: customer_details_prop_def)
    have sid: "js_or (obj_id (ev_object event)) [] = ''cs_1''"
      using assms(6) by (simp add: js_or_def)
    have d: "dispatch net e event w
          = (case ghlV1UpsertContact net e ?args w of
               (Throws err, calls1, w1) \<Rightarrow> (Throws err, calls1, w1)
             | (Returns data, calls1, w1) \<Rightarrow>
                 (case convertKitSubscribe net e ''a@x.com'' ''Jane'' w1 of
                    (calls2, w2) \<Rightarrow> (Returns (), calls1 @ calls2, w2)))"
      using assms(2)
      by (simp add: dispatch_def on_checkout_session_completed_def Let_def em nm ph sid time
            splitName_Jane_Doe TAGS_STABLE_TRIAL_def TAGS_evt_cs_def cong: result.case_cong)
    have h: "webhook_handler constructEvent net e req w
             = (case ghlV1UpsertContact net e ?args w of
                  (Throws err, calls1, w1) \<Rightarrow> (Reply 500 (Send ''Server error''), calls1, w1)
                | (Returns data, calls1, w1) \<Rightarrow>
                    (case convertKitSubscribe net e ''a@x.com'' ''Jane'' w1 of
                       (calls2, w2) \<Rightarrow> (Reply 200 Json_received_true, calls1 @ calls2, w2)))"
      using assms(1) by (simp add: webhook_handler_def d split: prod.splits result.splits)
    have 1: "\<exists>args. p_email args = ''a@x.com'' \<and> p_firstName args = Some ''Jane''
              \<and> p_lastName args = Some ''Doe''
              \<and> p_tags args = [''fc:trial_checkout'', ''evt:cs_cs_1'']
              \<and> webhook_handler constructEvent net e req w
                 = (case ghlV1UpsertContact net e args w of
                      (Throws err, calls1, w1) \<Rightarrow> (Reply 500 (Send ''Server error''), calls1, w1)
                    | (Returns data, calls1, w1) \<Rightarrow>
                        (case convertKitSubscribe net e ''a@x.com'' ''Jane'' w1 of
                           (calls2, w2) \<Rightarrow> (Reply 200 Json_received_true, calls1 @ calls2, w2)))"
      by (rule exI [of _ ?args]) (simp add: h)
    have 2: "\<exists>pl rest. fst (snd (webhook_handler constructEvent net e req w))
                            = GhlContactsGet ''a@x.com'' # GhlContactsPost pl # rest
                 \<and> p_firstName pl = Some ''Jane'' \<and> p_lastName pl = Some ''Doe''
                 \<and> ''fc:trial_checkout'' \<in> set (p_tags pl)
                 \<and> ''evt:cs_cs_1'' \<in> set (p_tags pl)"
      if conf: "ghl_configured e"
    proof -
      obtain r calls1 w1 where u: "ghlV1UpsertContact net e ?args w = (r, calls1, w1)"
        by (cases "ghlV1UpsertContact net e ?args w") auto
      let ?pl = "?args\<lparr>p_tags := mergedTags (fst (ghlV1GetContactByEmail net e ''a@x.com'' w))
                                     [''fc:trial_checkout'', ''evt:cs_cs_1'']\<rparr>"
      from upsert_callsD [OF u] conf
      have c1: "calls1 = [GhlContactsGet ''a@x.com'', GhlContactsPost ?pl]" by simp
      have "\<exists>rest. fst (snd (webhook_handler constructEvent net e req w))
               = GhlContactsGet ''a@x.com'' # GhlContactsPost ?pl # rest"
        by (simp add: h u c1 split: result.splits prod.splits)
      moreover have "''fc:trial_checkout'' \<in> set (p_tags ?pl)" "''evt:cs_cs_1'' \<in> set (p_tags ?pl)"
        by (simp_all add: mergedTags_keeps_new trimmed_stable_tags)
      ultimately show ?thesis by auto
    qed
    from 1 2 show ?thesis by blast
  qed
  have 3: "date_in_range event \<longrightarrow> ?invoked" by (rule impI) (rule invoked)
  have 4: "\<not> date_in_range event \<longrightarrow> ?refused" by (rule impI) (rule refused)
  from 3 4 show ?thesis by (rule conjI)
qed

theorem C8_checkout_scenario_witness:
  "accept checkout_jane (rawBody signed) (stripe_signature signed) (STRIPE_WEBHOOK_SECRET test_env)
     = Returns checkout_jane
   \<and> ev_type checkout_jane = ''checkout.session.completed''
   \<and> obj_customer_details (ev_object checkout_jane)
       = Some \<lparr>cd_email = Some ''a@x.com'', cd_name = Some ''Jane Doe'', cd_phone = None\<rparr>
   \<and> obj_id (ev_object checkout_jane) = Some ''cs_1''
   \<and> date_in_range checkout_jane
   \<and> ghl_configured test_env
   \<and> (\<exists>pl rest. fst (snd (webhook_handler (accept checkout_jane) mock_network test_env signed empty_world))
                   = GhlContactsGet ''a@x.com'' # GhlContactsPost pl # rest
          \<and> p_firstName pl = Some ''Jane'' \<and> p_lastName pl = Some ''Doe''
          \<and> ''fc:trial_checkout'' \<in> set (p_tags pl)
          \<and> ''evt:cs_cs_1'' \<in> set (p_tags pl))
   \<and> accept (checkout_jane\<lparr>ev_created := None\<rparr>) (rawBody signed) (stripe_signature signed)
        (STRIPE_WEBHOOK_SECRET test_env)
       = Returns (checkout_jane\<lparr>ev_created := None\<rparr>)
   \<and> \<not> date_in_range (checkout_jane\<lparr>ev_created := None\<rparr>)
   \<and> webhook_handler (accept (checkout_jane\<lparr>ev_created := None\<rparr>)) mock_network test_env signed
        empty_world
       = (Reply 500 (Send ''Server error''), [], empty_world)"
proof -
  let ?d = "\<lparr>cd_email = Some ''a@x.com'', cd_name = Some ''Jane Doe'', cd_phone = None\<rparr>"
  let ?bad = "checkout_jane\<lparr>ev_created := None\<rparr>"
  have h1: "accept checkout_jane (rawBody signed) (stripe_signature signed)
              (STRIPE_WEBHOOK_SECRET test_env) = Returns checkout_jane"
    by (simp add: accept_def signed_def)
  have h2: "ev_type checkout_jane = ''checkout.session.completed''"
    by (simp add: checkout_jane_def)
  have h3: "obj_customer_details (ev_object checkout_jane) = Some ?d"
    by (simp add: checkout_jane_def empty_object_def)
  have h4: "cd_email ?d = Some ''a@x.com''" by simp
  have h5: "cd_name ?d = Some ''Jane Doe''" by simp
  have h6: "obj_id (ev_object checkout_jane) = Some ''cs_1''"
    by (simp add: checkout_jane_def empty_object_def)
  have h7: "date_in_range checkout_jane"
    by (simp add: date_in_range_def checkout_jane_def)
  have conf: "ghl_configured test_env" by (simp add: ghl_configured_def eval_defs)
  from C8_checkout_scenario
         [where constructEvent = "accept checkout_jane" and req = signed and e = test_env
            and net = mock_network and w = empty_world, OF h1 h2 h3 h4 h5 h6,
          THEN conjunct1, THEN mp, OF h7, THEN conjunct2, THEN mp, OF conf]
  have posted: "\<exists>pl rest. fst (snd (webhook_handler (accept checkout_jane) mock_network test_env signed empty_world))
                   = GhlContactsGet ''a@x.com'' # GhlContactsPost pl # rest
          \<and> p_firstName pl = Some ''Jane'' \<and> p_lastName pl = Some ''Doe''
          \<and> ''fc:trial_checkout'' \<in> set (p_tags pl)
          \<and> ''evt:cs_cs_1'' \<in> set (p_tags pl)" .
  have b1: "accept ?bad (rawBody signed) (stripe_signature signed) (STRIPE_WEBHOOK_SECRET test_env)
              = Returns ?bad"
    by (simp add: accept_def signed_def)
  have b2: "ev_type ?bad = ''checkout.session.completed''"
    by (simp add: checkout_jane_def)
  have b3: "obj_customer_details (ev_object ?bad) = Some ?d"
    by (simp add: checkout_jane_def empty_object_def)
  have b6: "obj_id (ev_object ?bad) = Some ''cs_1''"
    by (simp add: checkout_jane_def empty_object_def)
  have b7: "\<not> date_in_range ?bad"
    by (simp add: date_in_range_def)
  from C8_checkout_scenario
         [where constructEvent = "accept ?bad" and req = signed and e = test_env
            and net = mock_network and w = empty_world, OF b1 b2 b3 h4 h5 b6,
          THEN conjunct2, THEN mp, OF b7]
  have refused: "webhook_handler (accept ?bad) mock_network test_env signed empty_world
                   = (Reply 500 (Send ''Server error''), [], empty_world)" .
  from h1 h2 h3 h6 h7 conf posted b1 b7 refused show ?thesis by (intro conjI)
qed

section \<open>Redelivery against the test double\<close>

lemma mock_retrieve:
  "retrieve_customer_email mock_network customerId w
     = (if truthy customerId
        then (case map_of (customers w) (js_or customerId []) of
                None \<Rightarrow> [] | Some customer_email \<Rightarrow> js_or customer_email [])
        else [],
        if truthy customerId then [StripeCustomersRetrieve (js_or customerId [])] else [],
        w)"
  by (simp add: retrieve_customer_email_def mock_network_def Let_def split: option.splits)

lemma mock_lookup:
  "p_email args \<noteq> [] \<Longrightarrow> ghl_configured e \<Longrightarrow>
     ghlV1GetContactByEmail mock_network e (p_email args) w
       = (mock_existing w (p_email args), [GhlContactsGet (p_email args)], w)"
  by (simp add: ghlV1GetContactByEmail_def mock_network_def mock_existing_def ghl_configured_def
        ok_def Let_def split: option.splits)

lemma mock_upsert:
  "ghlV1UpsertContact mock_network e args w
     = (if p_email args = [] \<or> \<not> ghl_configured e then (Returns None, [], w)
        else
          (Returns (Some ''{}''),
           [GhlContactsGet (p_email args),
            GhlContactsPost (args\<lparr>p_tags := mergedTags (mock_existing w (p_email args)) (p_tags args)\<rparr>)],
           w\<lparr>contacts := AList.update (p_email args)
                 (args\<lparr>p_tags := mergedTags (mock_existing w (p_email args)) (p_tags args)\<rparr>)
                 (contacts w)\<rparr>))"
proof (cases "p_email args = [] \<or> \<not> ghl_configured e")
  case True
  then show ?thesis by (auto simp: ghlV1UpsertContact_def ghl_configured_def Let_def)
next
  case False
  then have ne: "p_email args \<noteq> []" and conf: "ghl_configured e" by simp_all
  from conf have k: "trim (js_or (GHL_V1_API_KEY e) []) \<noteq> []" "trim (js_or (GHL_LOCATION_ID e) []) \<noteq> []"
    by (simp_all add: ghl_configured_def)
  show ?thesis
    using ne conf
    by (simp add: ghlV1UpsertContact_def [of mock_network] Let_def k mock_lookup)
       (simp add: mock_network_def ok_def)
qed

lemma mock_upsert_idem:
  assumes "ghlV1UpsertContact mock_network e args w = (r, calls, w1)"
  shows "ghlV1UpsertContact mock_network e args w1 = (r, calls, w1) \<and> customers w1 = customers w"
proof (cases "p_email args = [] \<or> \<not> ghl_configured e")
  case True
  with assms show ?thesis by (simp add: mock_upsert)
next
  case False
  let ?pl = "args\<lparr>p_tags := mergedTags (mock_existing w (p_email args)) (p_tags args)\<rparr>"
  from assms False have w1: "w1 = w\<lparr>contacts := AList.update (p_email args) ?pl (contacts w)\<rparr>"
    and r: "r = Returns (Some ''{}'')"
    and c: "calls = [GhlContactsGet (p_email args), GhlContactsPost ?pl]"
    by (simp_all add: mock_upsert)
  have ex1: "mock_existing w1 (p_email args)
               = Some \<lparr>c_tags = TagsArray (mergedTags (mock_existing w (p_email args)) (p_tags args))\<rparr>"
    by (simp add: w1 mock_existing_def update_conv')
  have pl: "args\<lparr>p_tags := mergedTags (mock_existing w1 (p_email args)) (p_tags args)\<rparr> = ?pl"
    by (simp add: ex1 mergedTags_idem)
  have "map_of (contacts w1) (p_email args) = Some ?pl" by (simp add: w1 update_conv')
  then have up: "AList.update (p_email args) ?pl (contacts w1) = contacts w1"
    by (rule update_triv)
  have "ghlV1UpsertContact mock_network e args w1 = (r, calls, w1)"
    using False by (simp add: mock_upsert pl up r c)
  moreover have "customers w1 = customers w" by (simp add: w1)
  ultimately show ?thesis by simp
qed

lemma mock_subscribe_tags:
  "subscribe_tags mock_network key email tagIds w
     = (map (\<lambda>t. ConvertKitTagSubscribe t key email) tagIds, w)"
  by (induction tagIds arbitrary: w) (simp_all add: mock_network_def)

lemma mock_convertKit:
  "convertKitSubscribe mock_network e email first w = (calls, w1) \<Longrightarrow>
     w1 = w \<and> convertKitSubscribe mock_network e email first w2 = (calls, w2)"
  by (auto simp: convertKitSubscribe_def Let_def mock_subscribe_tags split: if_splits prod.splits)
     (auto simp: mock_network_def)

lemma mock_on_checkout_idem:
  assumes "on_checkout_session_completed mock_network e event w = (r, calls, w1)"
  shows "on_checkout_session_completed mock_network e event w1 = (r, calls, w1)"
proof -
  let ?email = "js_or (customer_details_prop (ev_object event) cd_email)
                  (js_or (obj_customer_email (ev_object event)) [])"
  show ?thesis
  proof (cases "?email = []")
    case True
    with assms show ?thesis by (simp add: on_checkout_session_completed_def Let_def)
  next
    case False
    obtain first last where sn: "splitName (js_or (customer_details_prop (ev_object event) cd_name) []) = (first, last)"
      by (cases "splitName (js_or (customer_details_prop (ev_object event) cd_name) [])") auto
    let ?args = "\<lparr>p_email = ?email, p_firstName = Some first, p_lastName = Some last,
        p_phone = Some (js_or (customer_details_prop (ev_object event) cd_phone) []),
        p_tags = [TAGS_STABLE_TRIAL, TAGS_evt_cs (js_or (obj_id (ev_object event)) [])],
        p_customFields =
          [(''Last Checkout Session ID'', Str (js_or (obj_id (ev_object event)) [])),
           (''Stripe Customer ID'', Str (js_or (obj_customer (ev_object event)) [])),
           (''Last Stripe Event Type'', Str (ev_type event)),
           (''Last Stripe Event Time'', IsoString (the (ev_created event) * 1000))]\<rparr>"
    have unf: "on_checkout_session_completed mock_network e event v
           = (if \<not> date_in_range event then (Throws ''RangeError: Invalid time value'', [], v)
              else
                (case ghlV1UpsertContact mock_network e ?args v of
                   (Throws err, calls1, v1) \<Rightarrow> (Throws err, calls1, v1)
                 | (Returns data, calls1, v1) \<Rightarrow>
                     (case convertKitSubscribe mock_network e ?email first v1 of
                        (calls2, v2) \<Rightarrow> (Returns (), calls1 @ calls2, v2))))" for v
      using False by (simp add: on_checkout_session_completed_def Let_def sn event_time_eq)
    obtain ru cu wu where u: "ghlV1UpsertContact mock_network e ?args w = (ru, cu, wu)"
      by (cases "ghlV1UpsertContact mock_network e ?args w") auto
    from mock_upsert_idem [OF u] have u1: "ghlV1UpsertContact mock_network e ?args wu = (ru, cu, wu)"
      by simp
    show ?thesis
    proof (cases "date_in_range event")
      case False
      with assms show ?thesis by (simp add: unf)
    next
      case valid: True
      show ?thesis
      proof (cases ru)
        case (Throws err)
        with assms u valid have "r = Throws err" "calls = cu" "w1 = wu" by (simp_all add: unf)
        with u1 Throws valid show ?thesis by (simp add: unf)
      next
        case (Returns data)
        obtain c2 w2 where ck: "convertKitSubscribe mock_network e ?email first wu = (c2, w2)"
          by (cases "convertKitSubscribe mock_network e ?email first wu") auto
        from mock_convertKit [OF ck] have w2: "w2 = wu" by simp
        from assms u Returns ck valid have "r = Returns ()" "calls = cu @ c2" "w1 = wu"
          by (simp_all add: unf w2)
        with u1 Returns ck w2 valid show ?thesis by (simp add: unf)
      qed
    qed
  qed
qed

lemma mock_on_invoice_idem:
  assumes "on_invoice stableTag mock_network e event w = (r, calls, w1)"
  shows "on_invoice stableTag mock_network e event w1 = (r, calls, w1)"
proof (cases "js_or (obj_customer_email (ev_object event)) [] = []")
  case True
  with assms show ?thesis by (simp add: on_invoice_def Let_def)
next
  case False
  let ?email = "js_or (obj_customer_email (ev_object event)) []"
  let ?subId = "js_or (obj_subscription (ev_object event)) []"
  let ?args = "no_names ?email
       ([stableTag, TAGS_evt_in (js_or (obj_id (ev_object event)) [])]
          @ (if ?subId \<noteq> [] then [TAGS_evt_sub ?subId] else []))
       [(''Last Invoice ID'', Str (js_or (obj_id (ev_object event)) [])),
        (''Last Subscription ID'', Str ?subId),
        (''Stripe Customer ID'', Str (js_or (obj_customer (ev_object event)) [])),
        (''Last Stripe Event Type'', Str (ev_type event)),
        (''Last Stripe Event Time'', IsoString (the (ev_created event) * 1000))]"
  have unf: "on_invoice stableTag mock_network e event v
           = (if \<not> date_in_range event then (Throws ''RangeError: Invalid time value'', [], v)
              else
                (case ghlV1UpsertContact mock_network e ?args v of
                   (Throws err, calls1, v1) \<Rightarrow> (Throws err, calls1, v1)
                 | (Returns data, calls1, v1) \<Rightarrow> (Returns (), calls1, v1)))" for v
    using False by (simp add: on_invoice_def Let_def event_time_eq)
  obtain ru cu wu where u: "ghlV1UpsertContact mock_network e ?args w = (ru, cu, wu)"
    by (cases "ghlV1UpsertContact mock_network e ?args w") auto
  from mock_upsert_idem [OF u] have u1: "ghlV1UpsertContact mock_network e ?args wu = (ru, cu, wu)"
    by simp
  show ?thesis
  proof (cases "date_in_range event")
    case False
    with assms show ?thesis by (simp add: unf)
  next
    case True
    with assms u have "calls = cu" "w1 = wu"
      "r = (case ru of Throws err \<Rightarrow> Throws err | Returns d \<Rightarrow> Returns ())"
      by (simp_all add: unf split: result.splits)
    with u1 True show ?thesis by (simp add: unf split: result.splits)
  qed
qed

lemma mock_on_subscription_idem:
  assumes "on_subscription stableTags mock_network e event w = (r, calls, w1)"
  shows "on_subscription stableTags mock_network e event w1 = (r, calls, w1)"
proof -
  let ?cid = "obj_customer (ev_object event)"
  define email where "email = fst (retrieve_customer_email mock_network ?cid w)"
  define calls0 where "calls0 = (if truthy ?cid then [StripeCustomersRetrieve (js_or ?cid [])] else [])"
  have rw: "retrieve_customer_email mock_network ?cid w = (email, calls0, w)"
    by (simp add: email_def calls0_def mock_retrieve)
  have rv: "retrieve_customer_email mock_network ?cid v = (email, calls0, v)"
    if "customers v = customers w" for v
    using that by (simp add: email_def calls0_def mock_retrieve)
  show ?thesis
  proof (cases "email = []")
    case True
    with assms rw have "w1 = w" "r = Returns ()" "calls = calls0"
      by (simp_all add: on_subscription_def Let_def)
    with True rw show ?thesis by (simp add: on_subscription_def Let_def)
  next
    case False
    let ?args = "no_names email
       (stableTags @ [TAGS_evt_sub (js_or (obj_id (ev_object event)) [])])
       [(''Last Subscription ID'', Str (js_or (obj_id (ev_object event)) [])),
        (''Stripe Customer ID'', Str (js_or ?cid [])),
        (''Last Stripe Event Type'', Str (ev_type event)),
        (''Last Stripe Event Time'', IsoString (the (ev_created event) * 1000))]"
    have unf: "on_subscription stableTags mock_network e event v
           = (if \<not> date_in_range event then (Throws ''RangeError: Invalid time value'', calls0, v)
              else
                (case ghlV1UpsertContact mock_network e ?args v of
                   (Throws err, calls1, v1) \<Rightarrow> (Throws err, calls0 @ calls1, v1)
                 | (Returns data, calls1, v1) \<Rightarrow> (Returns (), calls0 @ calls1, v1)))"
      if "customers v = customers w" for v
      using False rv [OF that] by (simp add: on_subscription_def Let_def event_time_eq)
    obtain ru cu wu where u: "ghlV1UpsertContact mock_network e ?args w = (ru, cu, wu)"
      by (cases "ghlV1UpsertContact mock_network e ?args w") auto
    from mock_upsert_idem [OF u] have u1: "ghlV1UpsertContact mock_network e ?args wu = (ru, cu, wu)"
      and cu: "customers wu = customers w" by simp_all
    show ?thesis
    proof (cases "date_in_range event")
      case False
      with assms show ?thesis by (simp add: unf)
    next
      case True
      with assms u have "calls = calls0 @ cu" "w1 = wu"
        "r = (case ru of Throws err \<Rightarrow> Throws err | Returns d \<Rightarrow> Returns ())"
        by (simp_all add: unf split: result.splits)
      with u1 cu True show ?thesis by (simp add: unf split: result.splits)
    qed
  qed
qed

lemma mock_dispatch_idem:
  assumes "dispatch mock_network e event w = (r, calls, w1)"
  shows "dispatch mock_network e event w1 = (r, calls, w1)"
  using assms
  by (auto simp: dispatch_def mock_on_checkout_idem mock_on_invoice_idem mock_on_subscription_idem
        split: if_splits)

text \<open>
  Against the test double, which always answers and keeps for every email the contact it
  was last sent, the second delivery of an event repeats the first in full: the handler gives
  the same answer and issues the same calls, and the CRM is left as the first delivery left
  it.
\<close>

lemma mock_redelivery_idempotent:
  assumes "constructEvent (rawBody req) (stripe_signature req) (STRIPE_WEBHOOK_SECRET e) = Returns event"
    and "webhook_handler constructEvent mock_network e req w = (rep, calls, w1)"
  shows "webhook_handler constructEvent mock_network e req w1 = (rep, calls, w1)"
proof -
  obtain r c v where d: "dispatch mock_network e event w = (r, c, v)"
    by (cases "dispatch mock_network e event w") auto
  from mock_dispatch_idem [OF d] have d1: "dispatch mock_network e event v = (r, c, v)" .
  from assms d have "w1 = v" "calls = c"
    "rep = (case r of Throws err \<Rightarrow> Reply 500 (Send ''Server error'') | Returns u \<Rightarrow> Reply 200 Json_received_true)"
    by (simp_all add: webhook_handler_def split: result.splits)
  with assms(1) d1 show ?thesis by (simp add: webhook_handler_def split: result.splits)
qed

section \<open>Redelivery in general\<close>

lemma crm_posts_append: "crm_posts (xs @ ys) = crm_posts xs @ crm_posts ys"
  by (induction xs rule: crm_posts.induct) simp_all

lemma set_crm_posts: "pl \<in> set (crm_posts calls) \<longleftrightarrow> GhlContactsPost pl \<in> set calls"
  by (induction calls rule: crm_posts.induct) auto

lemma crm_posts_subscribe_tags: "crm_posts (fst (subscribe_tags net key email tagIds w)) = []"
proof (induction tagIds arbitrary: w)
  case Nil
  show ?case by simp
next
  case (Cons tagId tagIds)
  obtain r w1 where p: "convertkit_post net (ConvertKitTagSubscribe tagId key email) w = (r, w1)"
    by (cases "convertkit_post net (ConvertKitTagSubscribe tagId key email) w")
  obtain calls w2 where s: "subscribe_tags net key email tagIds w1 = (calls, w2)"
    by (cases "subscribe_tags net key email tagIds w1")
  from Cons [of w1] s have "crm_posts calls = []" by simp
  then show ?case by (simp add: p s)
qed

lemma crm_posts_convertKit: "crm_posts (fst (convertKitSubscribe net e email first w)) = []"
proof -
  have "crm_posts calls2 = []" if "subscribe_tags net key email tagIds v = (calls2, v2)"
    for key tagIds v calls2 v2
    using crm_posts_subscribe_tags [of net key email tagIds v] that by simp
  then show ?thesis
    by (auto simp: convertKitSubscribe_def Let_def crm_posts_append crm_posts_subscribe_tags
          split: prod.splits)
qed

lemma crm_posts_retrieve: "crm_posts (fst (snd (retrieve_customer_email net customerId w))) = []"
  by (simp add: retrieve_calls)

lemma mergedTags_c_tags: "mergedTags (Some c) tags = mergedTags (Some \<lparr>c_tags = c_tags c\<rparr>) tags"
  by (simp add: mergedTags_def existingTags_def)

lemma mergedTags_stored:
  assumes "existing_tag_list ex' = mergedTags ex tags"
  shows "mergedTags ex' tags = mergedTags ex tags"
proof (cases "\<exists>c ts. ex' = Some c \<and> c_tags c = TagsArray ts")
  case True
  then obtain c ts where c: "ex' = Some c" "c_tags c = TagsArray ts" by blast
  with assms have "ts = mergedTags ex tags" by (simp add: existing_tag_list_def)
  with c show ?thesis using mergedTags_c_tags [of c tags] by (simp add: mergedTags_idem)
next
  case False
  then have none: "existing_tag_list ex' = []"
    by (auto simp: existing_tag_list_def split: option.splits tags_field.splits)
  with assms have empty: "mergedTags ex tags = []" by simp
  then have "set (normalize_tags tags) = {}"
    using set_mergedTags [of ex tags] by simp
  then have "normalize_tags tags = []" by simp
  with False have "mergedTags ex' tags = []"
    by (auto simp: mergedTags_def existingTags_def new_Set_def Let_def
          split: option.splits tags_field.splits)
  with empty show ?thesis by simp
qed

lemma upsert_redelivery:
  assumes "\<forall>pl. GhlContactsPost pl \<in> set (fst (snd (ghlV1UpsertContact net e args w))) \<longrightarrow>
             existing_tag_list (fst (ghlV1GetContactByEmail net e (p_email pl) w')) = p_tags pl"
  shows "fst (snd (ghlV1UpsertContact net e args w')) = fst (snd (ghlV1UpsertContact net e args w))"
proof (cases "p_email args = [] \<or> \<not> ghl_configured e")
  case True
  then show ?thesis by (simp add: upsert_calls)
next
  case False
  let ?pl = "args\<lparr>p_tags := mergedTags (fst (ghlV1GetContactByEmail net e (p_email args) w)) (p_tags args)\<rparr>"
  from False have "GhlContactsPost ?pl \<in> set (fst (snd (ghlV1UpsertContact net e args w)))"
    by (simp add: upsert_calls)
  with assms have "existing_tag_list (fst (ghlV1GetContactByEmail net e (p_email ?pl) w')) = p_tags ?pl"
    by blast
  then have "existing_tag_list (fst (ghlV1GetContactByEmail net e (p_email args) w'))
               = mergedTags (fst (ghlV1GetContactByEmail net e (p_email args) w)) (p_tags args)"
    by simp
  then have "mergedTags (fst (ghlV1GetContactByEmail net e (p_email args) w')) (p_tags args)
               = mergedTags (fst (ghlV1GetContactByEmail net e (p_email args) w)) (p_tags args)"
    by (rule mergedTags_stored)
  with False show ?thesis by (simp add: upsert_calls)
qed

lemma on_invoice_redelivery:
  assumes "\<forall>pl. GhlContactsPost pl \<in> set (fst (snd (on_invoice stableTag net e event w))) \<longrightarrow>
             existing_tag_list (fst (ghlV1GetContactByEmail net e (p_email pl) w')) = p_tags pl"
  shows "fst (snd (on_invoice stableTag net e event w')) = fst (snd (on_invoice stableTag net e event w))"
proof (cases "js_or (obj_customer_email (ev_object event)) [] = [] \<or> \<not> date_in_range event")
  case True
  then show ?thesis by (auto simp: on_invoice_def Let_def event_time_eq)
next
  case False
  let ?email = "js_or (obj_customer_email (ev_object event)) []"
  let ?subId = "js_or (obj_subscription (ev_object event)) []"
  let ?args = "no_names ?email
       ([stableTag, TAGS_evt_in (js_or (obj_id (ev_object event)) [])]
          @ (if ?subId \<noteq> [] then [TAGS_evt_sub ?subId] else []))
       [(''Last Invoice ID'', Str (js_or (obj_id (ev_object event)) [])),
        (''Last Subscription ID'', Str ?subId),
        (''Stripe Customer ID'', Str (js_or (obj_customer (ev_object event)) [])),
        (''Last Stripe Event Type'', Str (ev_type event)),
        (''Last Stripe Event Time'', IsoString (the (ev_created event) * 1000))]"
  have unf: "fst (snd (on_invoice stableTag net e event v)) = fst (snd (ghlV1UpsertContact net e ?args v))"
    for v
    using False by (simp add: on_invoice_def Let_def event_time_eq split: prod.splits result.splits)
  from assms show ?thesis unfolding unf by (rule upsert_redelivery)
qed

lemma on_checkout_redelivery:
  assumes "\<forall>pl. GhlContactsPost pl \<in> set (fst (snd (on_checkout_session_completed net e event w))) \<longrightarrow>
             existing_tag_list (fst (ghlV1GetContactByEmail net e (p_email pl) w')) = p_tags pl"
  shows "crm_posts (fst (snd (on_checkout_session_completed net e event w')))
           = crm_posts (fst (snd (on_checkout_session_completed net e event w)))"
proof -
  let ?email = "js_or (customer_details_prop (ev_object event) cd_email)
                  (js_or (obj_customer_email (ev_object event)) [])"
  show ?thesis
  proof (cases "?email = [] \<or> \<not> date_in_range event")
    case True
    then show ?thesis by (auto simp: on_checkout_session_completed_def Let_def event_time_eq split: prod.splits)
  next
    case False
    obtain first last where sn: "splitName (js_or (customer_details_prop (ev_object event) cd_name) []) = (first, last)"
      by (cases "splitName (js_or (customer_details_prop (ev_object event) cd_name) [])") auto
    let ?args = "\<lparr>p_email = ?email, p_firstName = Some first, p_lastName = Some last,
        p_phone = Some (js_or (customer_details_prop (ev_object event) cd_phone) []),
        p_tags = [TAGS_STABLE_TRIAL, TAGS_evt_cs (js_or (obj_id (ev_object event)) [])],
        p_customFields =
          [(''Last Checkout Session ID'', Str (js_or (obj_id (ev_object event)) [])),
           (''Stripe Customer ID'', Str (js_or (obj_customer (ev_object event)) [])),
           (''Last Stripe Event Type'', Str (ev_type event)),
           (''Last Stripe Event Time'', IsoString (the (ev_created event) * 1000))]\<rparr>"
    have unf: "crm_posts (fst (snd (on_checkout_session_completed net e event v)))
                 = crm_posts (fst (snd (ghlV1UpsertContact net e ?args v)))" for v
      using False crm_posts_convertKit [of net e ?email first]
      by (simp add: on_checkout_session_completed_def Let_def sn event_time_eq crm_posts_append
            split: prod.splits result.splits)
         (metis fst_conv)
    have "\<forall>pl. GhlContactsPost pl \<in> set (fst (snd (ghlV1UpsertContact net e ?args w))) \<longrightarrow>
             existing_tag_list (fst (ghlV1GetContactByEmail net e (p_email pl) w')) = p_tags pl"
      using assms unf [of w] by (metis set_crm_posts)
    then have "fst (snd (ghlV1UpsertContact net e ?args w')) = fst (snd (ghlV1UpsertContact net e ?args w))"
      by (rule upsert_redelivery)
    then show ?thesis by (simp add: unf)
  qed
qed

lemma on_subscription_redelivery:
  assumes same: "fst (retrieve_customer_email net (obj_customer (ev_object event)) w')
                   = fst (retrieve_customer_email net (obj_customer (ev_object event)) w)"
    and stored: "\<forall>pl. GhlContactsPost pl \<in> set (fst (snd (on_subscription stableTags net e event w))) \<longrightarrow>
             existing_tag_list (fst (ghlV1GetContactByEmail net e (p_email pl)
                (snd (snd (retrieve_customer_email net (obj_customer (ev_object event)) w'))))) = p_tags pl"
  shows "fst (snd (on_subscription stableTags net e event w')) = fst (snd (on_subscription stableTags net e event w))"
proof -
  let ?cid = "obj_customer (ev_object event)"
  obtain email calls0 w0 where r: "retrieve_customer_email net ?cid w = (email, calls0, w0)"
    by (cases "retrieve_customer_email net ?cid w") auto
  obtain email' calls0' w0' where r': "retrieve_customer_email net ?cid w' = (email', calls0', w0')"
    by (cases "retrieve_customer_email net ?cid w'") auto
  from same r r' have e: "email' = email" by simp
  from retrieve_callsD [OF r] retrieve_callsD [OF r'] have c: "calls0' = calls0" by simp
  show ?thesis
  proof (cases "email = [] \<or> \<not> date_in_range event")
    case True
    then show ?thesis by (auto simp: on_subscription_def Let_def r r' e c event_time_eq)
  next
    case False
    let ?args = "no_names email
       (stableTags @ [TAGS_evt_sub (js_or (obj_id (ev_object event)) [])])
       [(''Last Subscription ID'', Str (js_or (obj_id (ev_object event)) [])),
        (''Stripe Customer ID'', Str (js_or ?cid [])),
        (''Last Stripe Event Type'', Str (ev_type event)),
        (''Last Stripe Event Time'', IsoString (the (ev_created event) * 1000))]"
    have unf: "fst (snd (on_subscription stableTags net e event w))
                 = calls0 @ fst (snd (ghlV1UpsertContact net e ?args w0))"
      using False by (simp add: on_subscription_def Let_def r event_time_eq split: prod.splits result.splits)
    have unf': "fst (snd (on_subscription stableTags net e event w'))
                 = calls0 @ fst (snd (ghlV1UpsertContact net e ?args w0'))"
      using False by (simp add: on_subscription_def Let_def r' e c event_time_eq split: prod.splits result.splits)
    have "\<forall>pl. GhlContactsPost pl \<in> set (fst (snd (ghlV1UpsertContact net e ?args w0))) \<longrightarrow>
             existing_tag_list (fst (ghlV1GetContactByEmail net e (p_email pl) w0')) = p_tags pl"
      using stored by (simp add: unf r')
    then have "fst (snd (ghlV1UpsertContact net e ?args w0')) = fst (snd (ghlV1UpsertContact net e ?args w0))"
      by (rule upsert_redelivery)
    then show ?thesis by (simp add: unf unf')
  qed
qed

lemma dispatch_redelivery:
  assumes same: "resolved_email net event w' = resolved_email net event w"
    and stored: "\<forall>pl. GhlContactsPost pl \<in> set (fst (snd (dispatch net e event w))) \<longrightarrow>
             existing_tag_list (fst (ghlV1GetContactByEmail net e (p_email pl) (world_at_lookup net event w')))
               = p_tags pl"
  shows "crm_posts (fst (snd (dispatch net e event w'))) = crm_posts (fst (snd (dispatch net e event w)))"
proof -
  consider (co) "ev_type event = ''checkout.session.completed''"
    | (inv) "ev_type event = ''invoice.payment_succeeded'' \<or> ev_type event = ''invoice.payment_failed''"
    | (sub) "ev_type event = ''customer.subscription.deleted'' \<or> ev_type event = ''customer.subscription.updated''"
    | (other) "ev_type event \<noteq> ''checkout.session.completed''" "ev_type event \<noteq> ''invoice.payment_succeeded''"
        "ev_type event \<noteq> ''invoice.payment_failed''" "ev_type event \<noteq> ''customer.subscription.deleted''"
        "ev_type event \<noteq> ''customer.subscription.updated''"
    by blast
  then show ?thesis
  proof cases
    case co
    with stored show ?thesis
      by (simp add: dispatch_def world_at_lookup_def on_checkout_redelivery)
  next
    case inv
    with stored show ?thesis
      by (auto simp: dispatch_def world_at_lookup_def on_invoice_redelivery)
  next
    case sub
    let ?cid = "obj_customer (ev_object event)"
    from sub same have s: "fst (retrieve_customer_email net ?cid w') = fst (retrieve_customer_email net ?cid w)"
      by (auto simp: resolved_email_def Let_def)
    from sub have wl: "world_at_lookup net event w' = snd (snd (retrieve_customer_email net ?cid w'))"
      by (auto simp: world_at_lookup_def)
    show ?thesis
    proof (cases "ev_type event = ''customer.subscription.updated''
                    \<and> obj_status (ev_object event) \<noteq> Some ''active''")
      case True
      then show ?thesis by (simp add: dispatch_def)
    next
      case False
      with sub obtain stableTags where d: "\<And>v. dispatch net e event v = on_subscription stableTags net e event v"
        by (auto simp: dispatch_def)
      from stored have "\<forall>pl. GhlContactsPost pl \<in> set (fst (snd (on_subscription stableTags net e event w))) \<longrightarrow>
             existing_tag_list (fst (ghlV1GetContactByEmail net e (p_email pl)
                (snd (snd (retrieve_customer_email net ?cid w'))))) = p_tags pl"
        by (simp add: d wl)
      with s have "fst (snd (on_subscription stableTags net e event w'))
                     = fst (snd (on_subscription stableTags net e event w))"
        by (rule on_subscription_redelivery)
      then show ?thesis by (simp add: d)
    qed
  next
    case other
    then show ?thesis by (simp add: dispatch_def)
  qed
qed

lemma handler_calls:
  "constructEvent (rawBody req) (stripe_signature req) (STRIPE_WEBHOOK_SECRET e) = Returns event \<Longrightarrow>
     fst (snd (webhook_handler constructEvent net e req w)) = fst (snd (dispatch net e event w))"
  by (simp add: webhook_handler_def split: prod.splits result.splits)

text \<open>
  Claim C2, as stated: for every validly signed event, delivering it a second time leaves
  the tag set of the contact as the first delivery left it. It fails when the lookup of the
  second delivery fails: the helper then goes on as if the contact had no tags, and the
  second post carries the new tags alone. Here the CRM keeps what it is posted, the contact
  starts with the tags \<open>A\<close> and \<open>B\<close>, and the lookup answers once and rejects from then
  on: after the first delivery of the failed invoice the contact holds \<open>A\<close>, \<open>B\<close>,
  \<open>fc:payment_failed\<close>, \<open>evt:in_in_1\<close> and \<open>evt:sub_sub_1\<close>, after the second only
  the last three.
\<close>

theorem C2_lookup_outage_counterexample:
  "webhook_handler (accept (invoice_failed ''in_1'')) lookup_outage test_env signed
       (world_with_tags [''A'', ''B''], 1)
     = (Reply 200 Json_received_true,
        [GhlContactsGet ''a@x.com'',
         GhlContactsPost (invoice_failed_contact
           [''A'', ''B'', ''fc:payment_failed'', ''evt:in_in_1'', ''evt:sub_sub_1''])],
        (\<lparr>contacts = [(''a@x.com'', invoice_failed_contact
            [''A'', ''B'', ''fc:payment_failed'', ''evt:in_in_1'', ''evt:sub_sub_1''])],
          customers = [(''cus_1'', Some ''a@x.com'')]\<rparr>, 0))
   \<and> webhook_handler (accept (invoice_failed ''in_1'')) lookup_outage test_env signed
       (\<lparr>contacts = [(''a@x.com'', invoice_failed_contact
           [''A'', ''B'', ''fc:payment_failed'', ''evt:in_in_1'', ''evt:sub_sub_1''])],
         customers = [(''cus_1'', Some ''a@x.com'')]\<rparr>, 0)
     = (Reply 200 Json_received_true,
        [GhlContactsGet ''a@x.com'',
         GhlContactsPost (invoice_failed_contact
           [''fc:payment_failed'', ''evt:in_in_1'', ''evt:sub_sub_1''])],
        (\<lparr>contacts = [(''a@x.com'', invoice_failed_contact
            [''fc:payment_failed'', ''evt:in_in_1'', ''evt:sub_sub_1''])],
          customers = [(''cus_1'', Some ''a@x.com'')]\<rparr>, 0))
   \<and> ''A'' \<in> set [''A'', ''B'', ''fc:payment_failed'', ''evt:in_in_1'', ''evt:sub_sub_1'']
   \<and> ''A'' \<notin> set [''fc:payment_failed'', ''evt:in_in_1'', ''evt:sub_sub_1'']"
  by (simp add: handler_defs eval_defs invoice_failed_contact_def lookup_outage_def)


text \<open>
  Claim C2, amended. Let a validly signed event be delivered twice. If the second delivery
  resolves the same email as the first, and its lookup returns the contact with the tag list
  that the first delivery posted (as a CRM does that answers and keeps what it is posted),
  then the second delivery posts to the CRM exactly what the first posted: the same
  contact, with the same tag list and the same custom fields.
\<close>

theorem C2_redelivery_posts_the_same_contact:
  assumes "constructEvent (rawBody req) (stripe_signature req) (STRIPE_WEBHOOK_SECRET e) = Returns event"
    and "webhook_handler constructEvent net e req w = (rep, calls, w1)"
    and "resolved_email net event w1 = resolved_email net event w"
    and "\<forall>pl. GhlContactsPost pl \<in> set calls \<longrightarrow>
           existing_tag_list (fst (ghlV1GetContactByEmail net e (p_email pl) (world_at_lookup net event w1)))
             = p_tags pl"
  shows "crm_posts (fst (snd (webhook_handler constructEvent net e req w1))) = crm_posts calls"
proof -
  from assms(1,2) have c: "calls = fst (snd (dispatch net e event w))"
    using handler_calls [of constructEvent req e event net w] by simp
  from assms(3) assms(4) [unfolded c]
  have "crm_posts (fst (snd (dispatch net e event w1))) = crm_posts (fst (snd (dispatch net e event w)))"
    by (rule dispatch_redelivery)
  with assms(1) show ?thesis by (simp add: handler_calls c)
qed

theorem C2_redelivery_posts_the_same_contact_witness:
  "accept (invoice_failed ''in_1'') (rawBody signed) (stripe_signature signed)
       (STRIPE_WEBHOOK_SECRET test_env) = Returns (invoice_failed ''in_1'')
   \<and> webhook_handler (accept (invoice_failed ''in_1'')) mock_network test_env signed
         (world_with_tags [''A'', ''B''])
       = (Reply 200 Json_received_true,
          [GhlContactsGet ''a@x.com'',
           GhlContactsPost (invoice_failed_contact
             [''A'', ''B'', ''fc:payment_failed'', ''evt:in_in_1'', ''evt:sub_sub_1''])],
          \<lparr>contacts = [(''a@x.com'', invoice_failed_contact
             [''A'', ''B'', ''fc:payment_failed'', ''evt:in_in_1'', ''evt:sub_sub_1''])],
           customers = [(''cus_1'', Some ''a@x.com'')]\<rparr>)
   \<and> existing_tag_list (fst (ghlV1GetContactByEmail mock_network test_env ''a@x.com''
         (world_at_lookup mock_network (invoice_failed ''in_1'')
            \<lparr>contacts = [(''a@x.com'', invoice_failed_contact
               [''A'', ''B'', ''fc:payment_failed'', ''evt:in_in_1'', ''evt:sub_sub_1''])],
             customers = [(''cus_1'', Some ''a@x.com'')]\<rparr>)))
       = [''A'', ''B'', ''fc:payment_failed'', ''evt:in_in_1'', ''evt:sub_sub_1'']
   \<and> crm_posts (fst (snd (webhook_handler (accept (invoice_failed ''in_1'')) mock_network test_env
         signed
         \<lparr>contacts = [(''a@x.com'', invoice_failed_contact
             [''A'', ''B'', ''fc:payment_failed'', ''evt:in_in_1'', ''evt:sub_sub_1''])],
           customers = [(''cus_1'', Some ''a@x.com'')]\<rparr>)))
       = [invoice_failed_contact
            [''A'', ''B'', ''fc:payment_failed'', ''evt:in_in_1'', ''evt:sub_sub_1'']]"
proof -
  let ?ev = "invoice_failed ''in_1''"
  let ?T = "[''A'', ''B'', ''fc:payment_failed'', ''evt:in_in_1'', ''evt:sub_sub_1'']"
  let ?w1 = "\<lparr>contacts = [(''a@x.com'', invoice_failed_contact ?T)],
              customers = [(''cus_1'', Some ''a@x.com'')]\<rparr>"
  let ?calls = "[GhlContactsGet ''a@x.com'', GhlContactsPost (invoice_failed_contact ?T)]"
  have h1: "accept ?ev (rawBody signed) (stripe_signature signed) (STRIPE_WEBHOOK_SECRET test_env)
              = Returns ?ev"
    by (simp add: accept_def signed_def)
  have h2: "webhook_handler (accept ?ev) mock_network test_env signed (world_with_tags [''A'', ''B''])
       = (Reply 200 Json_received_true, ?calls, ?w1)"
    by (simp add: handler_defs eval_defs invoice_failed_contact_def)
  have h3: "resolved_email mock_network ?ev ?w1
              = resolved_email mock_network ?ev (world_with_tags [''A'', ''B''])"
    by (simp add: resolved_email_def invoice_failed_def)
  have stored: "existing_tag_list (fst (ghlV1GetContactByEmail mock_network test_env ''a@x.com''
                   (world_at_lookup mock_network ?ev ?w1))) = ?T"
    by (simp add: world_at_lookup_def invoice_failed_def eval_defs invoice_failed_contact_def)
  have h4: "\<forall>pl. GhlContactsPost pl \<in> set ?calls \<longrightarrow>
              existing_tag_list (fst (ghlV1GetContactByEmail mock_network test_env (p_email pl)
                 (world_at_lookup mock_network ?ev ?w1))) = p_tags pl"
    using stored by (simp add: invoice_failed_contact_def)
  from C2_redelivery_posts_the_same_contact
         [where constructEvent = "accept ?ev" and req = signed and e = test_env, OF h1 h2 h3 h4]
  have "crm_posts (fst (snd (webhook_handler (accept ?ev) mock_network test_env signed ?w1)))
          = [invoice_failed_contact ?T]"
    by (simp only: crm_posts.simps)
  with h1 h2 stored show ?thesis by (intro conjI)
qed

section \<open>Properties of the stage id resolver\<close>

lemma find_filter: "find P xs = (case filter P xs of [] \<Rightarrow> None | x # _ \<Rightarrow> Some x)"
  by (induction xs) simp_all

lemma map_eq_list_all2: "map f xs = map f ys \<longleftrightarrow> list_all2 (\<lambda>a b. f a = f b) xs ys"
proof (induction xs arbitrary: ys)
  case Nil
  show ?case by simp
next
  case (Cons x xs)
  then show ?case by (cases ys) simp_all
qed

lemma matchName_same_name: "matchName stageName name \<longleftrightarrow> same_name stageName name"
  by (cases name)
     (simp_all add: matchName_def same_name_def toLowerCase_def js_or_def truthy_def map_eq_list_all2)

lemma truthy_id_first_id: "truthy_id i = first_id [i]"
  by (cases i) (simp_all add: truthy_id_def first_id_def truthy_def)

lemma hit_first_id:
  "(case find P xs of None \<Rightarrow> None | Some hit \<Rightarrow> truthy_id (f hit)) = first_id (map f (filter P xs))"
  by (cases "filter P xs") (simp_all add: find_filter truthy_id_first_id first_id_def)

lemma try1_finds:
  assumes "get_opportunities_filtered api pipelineId w = (reply, w1)"
  shows "try1 api pipelineId stageName w = (stage_id_in_listing stageName reply, w1)"
  using assms
  by (cases reply)
     (simp_all add: try1_def stage_id_in_listing_def offered_def matchName_same_name hit_first_id)

lemma prefer_first_id:
  "(case (case find (\<lambda>x. Q x \<and> P x) xs of Some h \<Rightarrow> Some h | None \<Rightarrow> find P xs) of
      None \<Rightarrow> None
    | Some h \<Rightarrow> truthy_id (f h))
   = first_id (map f (filter Q (filter P xs) @ filter P xs))"
proof (cases "filter (\<lambda>x. Q x \<and> P x) xs")
  case Nil
  then have "filter Q (filter P xs) = []" by (simp add: conj_commute)
  with Nil show ?thesis
    by (simp only: find_filter [of "\<lambda>x. Q x \<and> P x"] list.case option.case append_Nil hit_first_id)
next
  case (Cons h rest)
  then have "filter Q (filter P xs) = h # rest" by (simp add: conj_commute)
  with Cons show ?thesis
    by (simp add: find_filter [of "\<lambda>x. Q x \<and> P x"] truthy_id_first_id first_id_def)
qed

lemma try2_finds:
  assumes "get_opportunities api w = (reply, w1)"
  shows "try2 api pipelineId stageName w = (stage_id_in_all_opportunities pipelineId stageName reply, w1)"
proof (cases reply)
  case (Throws err)
  with assms show ?thesis
    by (simp add: try2_def stage_id_in_all_opportunities_def offered_def)
next
  case (Returns r2)
  have "try2 api pipelineId stageName w
          = (if ok r2
             then first_id (map o_stageId
                    (filter (\<lambda>opp. o_pipelineId opp = Some pipelineId)
                       (filter (\<lambda>opp. matchName stageName (o_stageName opp)) (opps_of (body r2)))
                     @ filter (\<lambda>opp. matchName stageName (o_stageName opp)) (opps_of (body r2))))
             else None, w1)"
    using assms Returns
    by (simp only: try2_def Let_def prod.case result.case
          prefer_first_id [where Q = "\<lambda>opp. o_pipelineId opp = Some pipelineId"
                             and P = "\<lambda>opp. matchName stageName (o_stageName opp)"])
  then show ?thesis
    by (simp add: Returns stage_id_in_all_opportunities_def offered_def matchName_same_name Let_def)
qed

lemma try3_finds:
  assumes "get_pipeline api pipelineId w = (reply, w1)"
  shows "try3 api pipelineId stageName w = (stage_id_in_pipeline stageName reply, w1)"
  using assms
  by (cases reply)
     (simp_all add: try3_def stage_id_in_pipeline_def offered_def matchName_same_name hit_first_id)

lemma resolve_by_replies:
  assumes "get_opportunities_filtered api pipelineId w = (reply1, w1)"
    and "get_opportunities api w1 = (reply2, w2)"
    and "get_pipeline api pipelineId w2 = (reply3, w3)"
  shows "resolveV1StageIdByName api e pipelineId stageName (cache, w) =
           (case cache (pipelineId @ ''::'' @ stageName) of
              Some cached \<Rightarrow> (Returns cached, [], cache, w)
            | None \<Rightarrow>
                if \<not> ghl_configured e
                then (Throws ''Missing GHL_V1_API_KEY or GHL_LOCATION_ID'', [], cache, w)
                else
                  (case stage_id_in_listing stageName reply1 of
                     Some i \<Rightarrow>
                       (Returns i, [OpportunitiesFiltered pipelineId],
                        cache(pipelineId @ ''::'' @ stageName \<mapsto> i), w1)
                   | None \<Rightarrow>
                       (case stage_id_in_all_opportunities pipelineId stageName reply2 of
                          Some i \<Rightarrow>
                            (Returns i, [OpportunitiesFiltered pipelineId, OpportunitiesUnfiltered],
                             cache(pipelineId @ ''::'' @ stageName \<mapsto> i), w2)
                        | None \<Rightarrow>
                            (case stage_id_in_pipeline stageName reply3 of
                               Some i \<Rightarrow>
                                 (Returns i,
                                  [OpportunitiesFiltered pipelineId, OpportunitiesUnfiltered,
                                   PipelineGet pipelineId],
                                  cache(pipelineId @ ''::'' @ stageName \<mapsto> i), w3)
                             | None \<Rightarrow>
                                 (Throws (''Could not resolve v1 stageId for '' @ [CHR 0x22] @ stageName
                                            @ [CHR 0x22]),
                                  [OpportunitiesFiltered pipelineId, OpportunitiesUnfiltered,
                                   PipelineGet pipelineId],
                                  cache, w3)))))"
  by (simp add: resolveV1StageIdByName_def Let_def ghl_configured_def
        try1_finds [OF assms(1)] try2_finds [OF assms(2)] try3_finds [OF assms(3)]
        split: option.splits)


lemma resolve_cached:
  "cache (pipelineId @ ''::'' @ stageName) = Some i \<Longrightarrow>
     resolveV1StageIdByName api e pipelineId stageName (cache, w) = (Returns i, [], cache, w)"
  by (simp add: resolveV1StageIdByName_def)

lemma resolve_keeps:
  assumes "resolveV1StageIdByName api e pipelineId stageName (cache, w) = (res, probes, cache', w')"
    and "cache k = Some v"
  shows "cache' k = Some v"
  using assms
  by (auto simp: resolveV1StageIdByName_def Let_def split: option.splits if_splits prod.splits)

lemma resolve_all_keeps:
  "fst st k = Some v \<Longrightarrow> fst (resolve_all api e others st) k = Some v"
proof (induction others arbitrary: st)
  case Nil
  then show ?case by simp
next
  case (Cons a others)
  obtain p n where a: "a = (p, n)" by (cases a)
  obtain cache w where st: "st = (cache, w)" by (cases st)
  obtain res probes cache' w' where r: "resolveV1StageIdByName api e p n (cache, w) = (res, probes, cache', w')"
    by (cases "resolveV1StageIdByName api e p n (cache, w)") auto
  from Cons.prems st have "cache k = Some v" by simp
  with r have "cache' k = Some v" by (rule resolve_keeps)
  then have "fst (resolve_all api e others (cache', w')) k = Some v"
    by (intro Cons.IH) simp
  then show ?case by (simp add: a st r)
qed

lemma resolve_caches:
  assumes "resolveV1StageIdByName api e pipelineId stageName (cache, w) = (Returns i, probes, cache', w')"
  shows "cache' (pipelineId @ ''::'' @ stageName) = Some i"
  using assms
  by (auto simp: resolveV1StageIdByName_def Let_def split: option.splits if_splits prod.splits)

lemma resolve_later_calls:
  assumes "fst (resolveV1StageIdByName api e pipelineId stageName (cache, w)) = Returns i"
  shows "resolveV1StageIdByName api3 e3 pipelineId stageName
           (resolve_all api2 e2 others (snd (snd (resolveV1StageIdByName api e pipelineId stageName (cache, w)))))
           = (Returns i, [],
              resolve_all api2 e2 others (snd (snd (resolveV1StageIdByName api e pipelineId stageName (cache, w)))))"
proof -
  obtain res probes cache' w'
    where r: "resolveV1StageIdByName api e pipelineId stageName (cache, w) = (res, probes, cache', w')"
    by (cases "resolveV1StageIdByName api e pipelineId stageName (cache, w)") auto
  with assms have "resolveV1StageIdByName api e pipelineId stageName (cache, w) = (Returns i, probes, cache', w')"
    by simp
  then have "cache' (pipelineId @ ''::'' @ stageName) = Some i"
    by (rule resolve_caches)
  then have "fst (cache', w') (pipelineId @ ''::'' @ stageName) = Some i"
    by (simp only: fst_conv)
  then have k: "fst (resolve_all api2 e2 others (cache', w')) (pipelineId @ ''::'' @ stageName) = Some i"
    by (rule resolve_all_keeps)
  obtain c2 v2 where st2: "resolve_all api2 e2 others (cache', w') = (c2, v2)"
    by (cases "resolve_all api2 e2 others (cache', w')")
  with k have "c2 (pipelineId @ ''::'' @ stageName) = Some i" by (simp only: fst_conv)
  then have "resolveV1StageIdByName api3 e3 pipelineId stageName (c2, v2) = (Returns i, [], c2, v2)"
    by (rule resolve_cached)
  then show ?thesis by (simp add: r st2)
qed

lemma resolve_prefix:
  "prefix (fst (snd (resolveV1StageIdByName api e pipelineId stageName st)))
     [OpportunitiesFiltered pipelineId, OpportunitiesUnfiltered, PipelineGet pipelineId]"
  by (cases st)
     (simp add: resolveV1StageIdByName_def Let_def split: option.splits prod.splits)

text \<open>
  Claim C9, as stated: for every pipeline id and stage name the resolver probes the three
  API shapes and returns the first stage id that a probe resolves. It fails when a CRM
  setting is missing: the resolver then throws before the first probe. Here the location id
  is not set and the list of the pipeline's opportunities would have resolved the stage: no
  request is issued and no id is returned, where with both settings the first probe returns
  \<open>st_9\<close>.
\<close>

theorem C9_missing_settings_counterexample:
  "resolveV1StageIdByName (recording_api listing_with_trial unreachable unreachable)
       (test_env\<lparr>GHL_LOCATION_ID := None\<rparr>) ''p1'' ''trial'' (Map.empty, [])
     = (Throws ''Missing GHL_V1_API_KEY or GHL_LOCATION_ID'', [], Map.empty, [])
   \<and> resolveV1StageIdByName (recording_api listing_with_trial unreachable unreachable)
       test_env ''p1'' ''trial'' (Map.empty, [])
     = (Returns ''st_9'', [OpportunitiesFiltered ''p1''], [''p1::trial'' \<mapsto> ''st_9''],
        [OpportunitiesFiltered ''p1''])"
proof -
  have lc: "toLowerCase ''Lead'' = ''lead''" "toLowerCase ''TRIAL'' = ''trial''"
    "toLowerCase ''trial'' = ''trial''"
    by code_simp+
  show ?thesis
    by (simp add: resolveV1StageIdByName_def try1_def matchName_def opps_of_def truthy_id_def
          recording_api_def listing_with_trial_def lc eval_defs truthy_def)
qed

text \<open>
  Claim C9, amended. Let the three replies be those that the CRM gives to the request for
  the opportunities of the pipeline, then to the request for all opportunities, then to the
  request for the pipeline object. With an id cached for the pair the resolver returns it and
  issues no request. Otherwise, with a CRM setting missing, it throws and issues no request.
  Otherwise it issues the requests in that order up to the first whose reply resolves the
  stage name, returns the id so resolved, issues no later request and stores the id in the
  cache under the key of the pair; when no reply resolves the name it has issued all three,
  throws and leaves the cache as it was. Once an id has been returned, every later
  invocation for the same pair, after any run of other invocations and whatever the CRM
  answers or the settings are by then, returns that id and issues no request.
\<close>

theorem C9_stage_id_resolver:
  assumes "get_opportunities_filtered api pipelineId w = (reply1, w1)"
    and "get_opportunities api w1 = (reply2, w2)"
    and "get_pipeline api pipelineId w2 = (reply3, w3)"
  shows "resolveV1StageIdByName api e pipelineId stageName (cache, w) =
           (case cache (pipelineId @ ''::'' @ stageName) of
              Some cached \<Rightarrow> (Returns cached, [], cache, w)
            | None \<Rightarrow>
                if \<not> ghl_configured e
                then (Throws ''Missing GHL_V1_API_KEY or GHL_LOCATION_ID'', [], cache, w)
                else
                  (case stage_id_in_listing stageName reply1 of
                     Some i \<Rightarrow>
                       (Returns i, [OpportunitiesFiltered pipelineId],
                        cache(pipelineId @ ''::'' @ stageName \<mapsto> i), w1)
                   | None \<Rightarrow>
                       (case stage_id_in_all_opportunities pipelineId stageName reply2 of
                          Some i \<Rightarrow>
                            (Returns i, [OpportunitiesFiltered pipelineId, OpportunitiesUnfiltered],
                             cache(pipelineId @ ''::'' @ stageName \<mapsto> i), w2)
                        | None \<Rightarrow>
                            (case stage_id_in_pipeline stageName reply3 of
                               Some i \<Rightarrow>
                                 (Returns i,
                                  [OpportunitiesFiltered pipelineId, OpportunitiesUnfiltered,
                                   PipelineGet pipelineId],
                                  cache(pipelineId @ ''::'' @ stageName \<mapsto> i), w3)
                             | None \<Rightarrow>
                                 (Throws (''Could not resolve v1 stageId for '' @ [CHR 0x22] @ stageName
                                            @ [CHR 0x22]),
                                  [OpportunitiesFiltered pipelineId, OpportunitiesUnfiltered,
                                   PipelineGet pipelineId],
                                  cache, w3)))))
       \<and> (\<forall>i api2 e2 others api3 e3.
            fst (resolveV1StageIdByName api e pipelineId stageName (cache, w)) = Returns i \<longrightarrow>
              resolveV1StageIdByName api3 e3 pipelineId stageName
                (resolve_all api2 e2 others
                   (snd (snd (resolveV1StageIdByName api e pipelineId stageName (cache, w)))))
              = (Returns i, [],
                 resolve_all api2 e2 others
                   (snd (snd (resolveV1StageIdByName api e pipelineId stageName (cache, w))))))"
proof (rule conjI)
  show "resolveV1StageIdByName api e pipelineId stageName (cache, w) =
           (case cache (pipelineId @ ''::'' @ stageName) of
              Some cached \<Rightarrow> (Returns cached, [], cache, w)
            | None \<Rightarrow>
                if \<not> ghl_configured e
                then (Throws ''Missing GHL_V1_API_KEY or GHL_LOCATION_ID'', [], cache, w)
                else
                  (case stage_id_in_listing stageName reply1 of
                     Some i \<Rightarrow>
                       (Returns i, [OpportunitiesFiltered pipelineId],
                        cache(pipelineId @ ''::'' @ stageName \<mapsto> i), w1)
                   | None \<Rightarrow>
                       (case stage_id_in_all_opportunities pipelineId stageName reply2 of
                          Some i \<Rightarrow>
                            (Returns i, [OpportunitiesFiltered pipelineId, OpportunitiesUnfiltered],
                             cache(pipelineId @ ''::'' @ stageName \<mapsto> i), w2)
                        | None \<Rightarrow>
                            (case stage_id_in_pipeline stageName reply3 of
                               Some i \<Rightarrow>
                                 (Returns i,
                                  [OpportunitiesFiltered pipelineId, OpportunitiesUnfiltered,
                                   PipelineGet pipelineId],
                                  cache(pipelineId @ ''::'' @ stageName \<mapsto> i), w3)
                             | None \<Rightarrow>
                                 (Throws (''Could not resolve v1 stageId for '' @ [CHR 0x22] @ stageName
                                            @ [CHR 0x22]),
                                  [OpportunitiesFiltered pipelineId, OpportunitiesUnfiltered,
                                   PipelineGet pipelineId],
                                  cache, w3)))))"
    using assms by (rule resolve_by_replies)
next
  show "\<forall>i api2 e2 others api3 e3.
            fst (resolveV1StageIdByName api e pipelineId stageName (cache, w)) = Returns i \<longrightarrow>
              resolveV1StageIdByName api3 e3 pipelineId stageName
                (resolve_all api2 e2 others
                   (snd (snd (resolveV1StageIdByName api e pipelineId stageName (cache, w)))))
              = (Returns i, [],
                 resolve_all api2 e2 others
                   (snd (snd (resolveV1StageIdByName api e pipelineId stageName (cache, w)))))"
    by (intro allI impI) (rule resolve_later_calls)
qed


theorem C9_stage_id_resolver_witness:
  "resolveV1StageIdByName (recording_api listing_with_trial all_of_two_pipelines pipeline_with_stages)
       test_env ''p1'' ''trial'' (Map.empty, [])
     = (Returns ''st_9'', [OpportunitiesFiltered ''p1''], [''p1::trial'' \<mapsto> ''st_9''],
        [OpportunitiesFiltered ''p1''])
   \<and> resolveV1StageIdByName (recording_api listing_not_found all_of_two_pipelines pipeline_with_stages)
       test_env ''p1'' ''trial'' (Map.empty, [])
     = (Returns ''st_9'', [OpportunitiesFiltered ''p1'', OpportunitiesUnfiltered],
        [''p1::trial'' \<mapsto> ''st_9''],
        [OpportunitiesFiltered ''p1'', OpportunitiesUnfiltered])
   \<and> resolveV1StageIdByName (recording_api unreachable all_without_ids pipeline_with_stages)
       test_env ''p1'' ''trial'' (Map.empty, [])
     = (Returns ''st_7'',
        [OpportunitiesFiltered ''p1'', OpportunitiesUnfiltered, PipelineGet ''p1''],
        [''p1::trial'' \<mapsto> ''st_7''],
        [OpportunitiesFiltered ''p1'', OpportunitiesUnfiltered, PipelineGet ''p1''])
   \<and> resolveV1StageIdByName (recording_api unreachable listing_not_found unreachable)
       test_env ''p1'' ''trial'' (Map.empty, [])
     = (Throws (''Could not resolve v1 stageId for '' @ [CHR 0x22] @ ''trial'' @ [CHR 0x22]),
        [OpportunitiesFiltered ''p1'', OpportunitiesUnfiltered, PipelineGet ''p1''],
        Map.empty,
        [OpportunitiesFiltered ''p1'', OpportunitiesUnfiltered, PipelineGet ''p1''])
   \<and> resolveV1StageIdByName (recording_api unreachable unreachable unreachable)
       (test_env\<lparr>GHL_V1_API_KEY := None\<rparr>) ''p1'' ''trial''
       (resolve_all (recording_api unreachable unreachable unreachable) test_env [(''p2'', ''Won'')]
          ([''p1::trial'' \<mapsto> ''st_9''], [OpportunitiesFiltered ''p1'', OpportunitiesUnfiltered]))
     = (Returns ''st_9'', [],
        resolve_all (recording_api unreachable unreachable unreachable) test_env [(''p2'', ''Won'')]
          ([''p1::trial'' \<mapsto> ''st_9''], [OpportunitiesFiltered ''p1'', OpportunitiesUnfiltered]))
   \<and> snd (resolve_all (recording_api unreachable unreachable unreachable) test_env [(''p2'', ''Won'')]
          ([''p1::trial'' \<mapsto> ''st_9''], [OpportunitiesFiltered ''p1'', OpportunitiesUnfiltered]))
     = [OpportunitiesFiltered ''p1'', OpportunitiesUnfiltered,
        OpportunitiesFiltered ''p2'', OpportunitiesUnfiltered, PipelineGet ''p2'']"
proof -
  let ?F = "OpportunitiesFiltered ''p1''"
  let ?U = "OpportunitiesUnfiltered"
  let ?P = "PipelineGet ''p1''"
  let ?api1 = "recording_api listing_with_trial all_of_two_pipelines pipeline_with_stages"
  let ?api2 = "recording_api listing_not_found all_of_two_pipelines pipeline_with_stages"
  let ?api3 = "recording_api unreachable all_without_ids pipeline_with_stages"
  let ?api4 = "recording_api unreachable listing_not_found unreachable"
  let ?down = "recording_api unreachable unreachable unreachable"
  have conf: "ghl_configured test_env" by (simp add: ghl_configured_def eval_defs)
  have key: "''p1'' @ ''::'' @ ''trial'' = ''p1::trial''" by simp
  have found:
    "stage_id_in_listing ''trial'' listing_with_trial = Some ''st_9''"
    "stage_id_in_listing ''trial'' listing_not_found = None"
    "stage_id_in_listing ''trial'' unreachable = None"
    "stage_id_in_all_opportunities ''p1'' ''trial'' all_of_two_pipelines = Some ''st_9''"
    "stage_id_in_all_opportunities ''p1'' ''trial'' all_without_ids = None"
    "stage_id_in_all_opportunities ''p1'' ''trial'' listing_not_found = None"
    "stage_id_in_pipeline ''trial'' pipeline_with_stages = Some ''st_7''"
    "stage_id_in_pipeline ''trial'' unreachable = None"
    by code_simp+
  have log: "get_opportunities_filtered (recording_api r1 r2 r3) ''p1'' [] = (r1, [?F])"
    "get_opportunities (recording_api r1 r2 r3) [?F] = (r2, [?F, ?U])"
    "get_pipeline (recording_api r1 r2 r3) ''p1'' [?F, ?U] = (r3, [?F, ?U, ?P])"
    for r1 r2 :: "opps_json response result" and r3
    by (simp_all add: recording_api_def)
  from C9_stage_id_resolver
         [where api = ?api1 and e = test_env and stageName = "''trial''" and cache = Map.empty,
          OF log, THEN conjunct1]
  have first: "resolveV1StageIdByName ?api1 test_env ''p1'' ''trial'' (Map.empty, [])
          = (Returns ''st_9'', [?F], [''p1::trial'' \<mapsto> ''st_9''], [?F])"
    by (simp add: conf found)
  from C9_stage_id_resolver
         [where api = ?api2 and e = test_env and stageName = "''trial''" and cache = Map.empty,
          OF log, THEN conjunct1]
  have second: "resolveV1StageIdByName ?api2 test_env ''p1'' ''trial'' (Map.empty, [])
          = (Returns ''st_9'', [?F, ?U], [''p1::trial'' \<mapsto> ''st_9''], [?F, ?U])"
    by (simp add: conf found)
  from C9_stage_id_resolver
         [where api = ?api3 and e = test_env and stageName = "''trial''" and cache = Map.empty,
          OF log, THEN conjunct1]
  have third: "resolveV1StageIdByName ?api3 test_env ''p1'' ''trial'' (Map.empty, [])
          = (Returns ''st_7'', [?F, ?U, ?P], [''p1::trial'' \<mapsto> ''st_7''], [?F, ?U, ?P])"
    by (simp add: conf found)
  from C9_stage_id_resolver
         [where api = ?api4 and e = test_env and stageName = "''trial''" and cache = Map.empty,
          OF log, THEN conjunct1]
  have none: "resolveV1StageIdByName ?api4 test_env ''p1'' ''trial'' (Map.empty, [])
          = (Throws (''Could not resolve v1 stageId for '' @ [CHR 0x22] @ ''trial'' @ [CHR 0x22]),
             [?F, ?U, ?P], Map.empty, [?F, ?U, ?P])"
    by (simp add: conf found)
  have r: "fst (resolveV1StageIdByName ?api2 test_env ''p1'' ''trial'' (Map.empty, [])) = Returns ''st_9''"
    by (simp only: second fst_conv)
  have st: "snd (snd (resolveV1StageIdByName ?api2 test_env ''p1'' ''trial'' (Map.empty, [])))
              = ([''p1::trial'' \<mapsto> ''st_9''], [?F, ?U])"
    by (simp only: second snd_conv)
  from C9_stage_id_resolver
         [where api = ?api2 and e = test_env and stageName = "''trial''" and cache = Map.empty,
          OF log, THEN conjunct2, rule_format,
          where ?api2.0 = ?down and ?e2.0 = test_env and others = "[(''p2'', ''Won'')]"
            and ?api3.0 = ?down and ?e3.0 = "test_env\<lparr>GHL_V1_API_KEY := None\<rparr>",
          OF r]
  have later: "resolveV1StageIdByName ?down (test_env\<lparr>GHL_V1_API_KEY := None\<rparr>) ''p1'' ''trial''
       (resolve_all ?down test_env [(''p2'', ''Won'')] ([''p1::trial'' \<mapsto> ''st_9''], [?F, ?U]))
     = (Returns ''st_9'', [],
        resolve_all ?down test_env [(''p2'', ''Won'')] ([''p1::trial'' \<mapsto> ''st_9''], [?F, ?U]))"
    by (simp only: st)
  have lc: "toLowerCase ''Won'' = ''won''" by code_simp
  have others: "snd (resolve_all ?down test_env [(''p2'', ''Won'')] ([''p1::trial'' \<mapsto> ''st_9''], [?F, ?U]))
     = [?F, ?U, OpportunitiesFiltered ''p2'', ?U, PipelineGet ''p2'']"
    by (simp add: resolveV1StageIdByName_def try1_def try2_def try3_def recording_api_def
          unreachable_def eval_defs)
  from first second third none later others show ?thesis by (intro conjI)
qed

end
